theory Spec2Isabelle
  imports Complex_Main
begin

section \<open>JavaScript strings\<close>

text \<open>
  A JavaScript string is a sequence of UTF-16 code units. The embedding uses HOL's
  \<open>string\<close>, whose characters are the code units \<open>U+0000\<close> to \<open>U+00FF\<close>: every
  string of the model is a JavaScript string, \<open>length\<close> is \<open>.length\<close>, and the
  library functions below are the ECMAScript ones restricted to that range (where
  \<open>toLowerCase\<close> maps code unit to code unit and so keeps the length). This is the
  model of the texts of the units and of the contents of the files. A file name
  given to the format detector is modelled with all its code units, see there.
\<close>

definition isSpace :: "char \<Rightarrow> bool" where
  \<comment> \<open>\<open>\s\<close> and the characters \<open>trim\<close> strips: TAB, LF, VT, FF, CR, SP, NBSP.\<close>
  "isSpace c = (of_char c \<in> {9, 10, 11, 12, 13, 32, 160 :: nat})"

definition isDigit :: "char \<Rightarrow> bool" where
  "isDigit c = (let n = of_char c :: nat in 48 \<le> n \<and> n \<le> 57)"

definition isAsciiLetter :: "char \<Rightarrow> bool" where
  "isAsciiLetter c =
     (let n = of_char c :: nat in (65 \<le> n \<and> n \<le> 90) \<or> (97 \<le> n \<and> n \<le> 122))"

definition isWord :: "char \<Rightarrow> bool" where
  \<comment> \<open>\<open>\w\<close>, that is \<open>[A-Za-z0-9_]\<close>.\<close>
  "isWord c = (isAsciiLetter c \<or> isDigit c \<or> c = CHR ''_'')"

definition isUpper :: "char \<Rightarrow> bool" where
  \<comment> \<open>The code units below \<open>U+0100\<close> that \<open>toLowerCase\<close> changes: \<open>A-Z\<close> and
      \<open>U+00C0\<close> to \<open>U+00DE\<close> without the multiplication sign \<open>U+00D7\<close>.\<close>
  "isUpper c =
     (let n = of_char c :: nat
      in (65 \<le> n \<and> n \<le> 90) \<or> (192 \<le> n \<and> n \<le> 222 \<and> n \<noteq> 215))"

definition lowerChar :: "char \<Rightarrow> char" where
  "lowerChar c = (if isUpper c then char_of (of_char c + 32 :: nat) else c)"

definition toLowerCase :: "string \<Rightarrow> string" where
  "toLowerCase s = map lowerChar s"

definition trim :: "string \<Rightarrow> string" where
  "trim s = rev (dropWhile isSpace (rev (dropWhile isSpace s)))"



fun lastIndexFrom :: "nat \<Rightarrow> 'a \<Rightarrow> 'a list \<Rightarrow> int \<Rightarrow> int" where
  \<comment> \<open>A left-to-right scan that remembers the last position of the character.\<close>
  "lastIndexFrom i c [] found = found"
| "lastIndexFrom i c (x # xs) found =
     lastIndexFrom (Suc i) c xs (if x = c then int i else found)"

definition lastIndexOf :: "'a list \<Rightarrow> 'a \<Rightarrow> int" where
  "lastIndexOf s c = lastIndexFrom 0 c s (-1)"

definition substringFrom :: "'a list \<Rightarrow> int \<Rightarrow> 'a list" where
  \<comment> \<open>\<open>s.substring(i)\<close>: a negative start counts as 0, one past the end as the end.\<close>
  "substringFrom s i = drop (nat i) s"

definition substring :: "string \<Rightarrow> int \<Rightarrow> int \<Rightarrow> string" where
  \<comment> \<open>\<open>s.substring(i, j)\<close>: both ends clamped to the string, swapped when \<open>j < i\<close>.\<close>
  "substring s i j =
     (let a = min (nat i) (length s); b = min (nat j) (length s)
      in take (max a b - min a b) (drop (min a b) s))"

definition startsWith :: "string \<Rightarrow> string \<Rightarrow> bool" where
  "startsWith s p = (take (length p) s = p)"

definition endsWith :: "string \<Rightarrow> string \<Rightarrow> bool" where
  "endsWith s p = (length p \<le> length s \<and> drop (length s - length p) s = p)"

fun str_includes :: "string \<Rightarrow> string \<Rightarrow> bool" where
  "str_includes [] p = (p = [])"
| "str_includes (x # xs) p = (startsWith (x # xs) p \<or> str_includes xs p)"

definition slice_last :: "string \<Rightarrow> string" where
  \<comment> \<open>\<open>s.slice(-1)\<close>: the last character, or the empty string.\<close>
  "slice_last s = (if s = [] then [] else [last s])"

fun split_char :: "char \<Rightarrow> string \<Rightarrow> string list" where
  \<comment> \<open>\<open>s.split(c)\<close> for a one-character separator: never an empty list.\<close>
  "split_char c [] = [[]]"
| "split_char c (x # xs) =
     (if x = c then [] # split_char c xs
      else (case split_char c xs of
              [] \<Rightarrow> [[x]]
            | p # ps \<Rightarrow> (x # p) # ps))"

fun join :: "string \<Rightarrow> string list \<Rightarrow> string" where
  "join sep [] = []"
| "join sep [x] = x"
| "join sep (x # y # ys) = x @ sep @ join sep (y # ys)"

fun replaceFirst :: "string \<Rightarrow> string \<Rightarrow> string \<Rightarrow> string" where
  \<comment> \<open>\<open>s.replace(/p/, r)\<close> for a pattern \<open>p\<close> that is a literal, non-empty text.\<close>
  "replaceFirst p r [] = []"
| "replaceFirst p r (x # xs) =
     (if startsWith (x # xs) p then r @ drop (length p) (x # xs)
      else x # replaceFirst p r xs)"



fun digitsOf :: "nat \<Rightarrow> nat \<Rightarrow> string" where
  \<comment> \<open>The decimal digits of a number, most significant first; the first argument
      bounds the number of digits.\<close>
  "digitsOf 0 n = []"
| "digitsOf (Suc fuel) n =
     (if n < 10 then [char_of (48 + n)]
      else digitsOf fuel (n div 10) @ [char_of (48 + n mod 10)])"

definition showNat :: "nat \<Rightarrow> string" where
  \<comment> \<open>\<open>String(n)\<close> for a non-negative integer; \<open>n\<close> has at most \<open>n + 1\<close> digits.\<close>
  "showNat n = digitsOf (Suc n) n"

section \<open>Regular expressions\<close>

text \<open>
  The regular expressions of the source are sequences of single characters or
  character classes, each possibly quantified (\<open>?\<close>, \<open>*\<close>, \<open>+\<close>, \<open>{2,}\<close>, all greedy),
  with the assertions \<open>^\<close>, \<open>$\<close>, \<open>\b\<close> and capture groups that are neither nested nor
  quantified. \<open>rxMatch\<close> is the backtracking matcher of ECMAScript on that fragment:
  a quantifier first takes as many characters as it can and gives them back one by
  one while the rest of the pattern fails.
\<close>

datatype rx =
    One "char \<Rightarrow> bool"
  | Many nat "char \<Rightarrow> bool"
  | Opt "char \<Rightarrow> bool"
  | Bol
  | Eol
  | WordB
  | GrpOpen
  | GrpClose

type_synonym regex = "rx list"

text \<open>
  A matcher state: the text in front of the current position (reversed), the text of the
  capture group that is open (reversed), and the groups captured so far.
\<close>

type_synonym mstate = "string \<times> string option \<times> string list"

definition consume :: "nat \<Rightarrow> mstate \<Rightarrow> string \<Rightarrow> mstate" where
  "consume k st rest =
     (case st of (b, g, cs) \<Rightarrow>
        (rev (take k rest) @ b, map_option (\<lambda>t. rev (take k rest) @ t) g, cs))"

fun firstSome :: "('a \<Rightarrow> 'b option) \<Rightarrow> 'a list \<Rightarrow> 'b option" where
  "firstSome f [] = None"
| "firstSome f (x # xs) = (case f x of Some y \<Rightarrow> Some y | None \<Rightarrow> firstSome f xs)"

definition atWordBoundary :: "string \<Rightarrow> string \<Rightarrow> bool" where
  \<comment> \<open>\<open>\b\<close>: exactly one of the characters on the two sides is a word character.\<close>
  "atWordBoundary pre rest =
     ((pre \<noteq> [] \<and> isWord (hd pre)) \<noteq> (rest \<noteq> [] \<and> isWord (hd rest)))"

primrec rxMatch :: "regex \<Rightarrow> mstate \<Rightarrow> string \<Rightarrow> (mstate \<times> string) option" where
  "rxMatch [] st rest = Some (st, rest)"
| "rxMatch (x # r) st rest =
     (case x of
        One c \<Rightarrow>
          (case rest of
             [] \<Rightarrow> None
           | y # ys \<Rightarrow> if c y then rxMatch r (consume 1 st rest) ys else None)
      | Many n c \<Rightarrow>
          firstSome (\<lambda>k. rxMatch r (consume k st rest) (drop k rest))
            (rev [n ..< Suc (length (takeWhile c rest))])
      | Opt c \<Rightarrow>
          (case (case rest of
                   [] \<Rightarrow> None
                 | y # ys \<Rightarrow> if c y then rxMatch r (consume 1 st rest) ys else None) of
             Some res \<Rightarrow> Some res
           | None \<Rightarrow> rxMatch r st rest)
      | Bol \<Rightarrow> if fst st = [] then rxMatch r st rest else None
      | Eol \<Rightarrow> if rest = [] then rxMatch r st rest else None
      | WordB \<Rightarrow> if atWordBoundary (fst st) rest then rxMatch r st rest else None
      | GrpOpen \<Rightarrow> rxMatch r (fst st, Some [], snd (snd st)) rest
      | GrpClose \<Rightarrow>
          rxMatch r (fst st, None,
            snd (snd st) @ [rev (case fst (snd st) of None \<Rightarrow> [] | Some t \<Rightarrow> t)]) rest)"

text \<open>
  One match: its position, its text and its capture groups.
\<close>

record rmatch =
  m_index :: nat
  m_text :: string
  m_groups :: "string list"

definition matchAt :: "regex \<Rightarrow> nat \<Rightarrow> string \<Rightarrow> string \<Rightarrow> rmatch option" where
  "matchAt r i pre rest =
     (case rxMatch r (pre, None, []) rest of
        None \<Rightarrow> None
      | Some (st, rest') \<Rightarrow>
          Some \<lparr>m_index = i, m_text = take (length rest - length rest') rest,
                m_groups = snd (snd st)\<rparr>)"

text \<open>
  All matches of a global regular expression, left to right (\<open>s.match(/r/g)\<close>, or
  \<open>r.exec(s)\<close> in a loop): after a match the search goes on behind it, and behind
  the next character when the match was empty. The first argument is the number of
  characters of the last match still to be skipped.
\<close>

fun rxScan :: "nat \<Rightarrow> regex \<Rightarrow> nat \<Rightarrow> string \<Rightarrow> string \<Rightarrow> rmatch list" where
  "rxScan skip r i pre [] =
     (if 0 < skip then []
      else (case matchAt r i pre [] of None \<Rightarrow> [] | Some m \<Rightarrow> [m]))"
| "rxScan skip r i pre (x # xs) =
     (if 0 < skip then rxScan (skip - 1) r (Suc i) (x # pre) xs
      else (case matchAt r i pre (x # xs) of
              None \<Rightarrow> rxScan 0 r (Suc i) (x # pre) xs
            | Some m \<Rightarrow> m # rxScan (length (m_text m) - 1) r (Suc i) (x # pre) xs))"

definition matches :: "regex \<Rightarrow> string \<Rightarrow> rmatch list" where
  "matches r s = rxScan 0 r 0 [] s"

definition matchAll :: "regex \<Rightarrow> string \<Rightarrow> string list" where
  \<comment> \<open>\<open>s.match(/r/g) || []\<close>\<close>
  "matchAll r s = map m_text (matches r s)"

definition rxTest :: "regex \<Rightarrow> string \<Rightarrow> bool" where
  \<comment> \<open>\<open>/r/.test(s)\<close>: there is a first match.\<close>
  "rxTest r s = (matches r s \<noteq> [])"


fun rebuild :: "nat \<Rightarrow> string \<Rightarrow> string \<Rightarrow> rmatch list \<Rightarrow> string" where
  \<comment> \<open>The text from position \<open>i\<close> on, with every match replaced.\<close>
  "rebuild i rep s [] = s"
| "rebuild i rep s (m # ms) =
     take (m_index m - i) s @ rep
     @ rebuild (m_index m + length (m_text m)) rep
         (drop (m_index m - i + length (m_text m)) s) ms"

definition rxReplaceAll :: "regex \<Rightarrow> string \<Rightarrow> string \<Rightarrow> string" where
  \<comment> \<open>\<open>s.replace(/r/g, rep)\<close> for a replacement text without \<open>$\<close>.\<close>
  "rxReplaceAll r rep s = rebuild 0 rep s (matches r s)"

fun pieces :: "nat \<Rightarrow> string \<Rightarrow> rmatch list \<Rightarrow> string list" where
  \<comment> \<open>The texts between the matches, from position \<open>i\<close> on.\<close>
  "pieces i s [] = [s]"
| "pieces i s (m # ms) =
     take (m_index m - i) s
     # pieces (m_index m + length (m_text m)) (drop (m_index m - i + length (m_text m)) s) ms"

definition rxSplit :: "regex \<Rightarrow> string \<Rightarrow> string list" where
  \<comment> \<open>\<open>s.split(/r/)\<close> for a regular expression that matches no empty text.\<close>
  "rxSplit r s = pieces 0 s (matches r s)"

definition lit :: "char \<Rightarrow> rx" where
  "lit c = One (\<lambda>x. x = c)"

definition oneOf :: "string \<Rightarrow> char \<Rightarrow> bool" where
  "oneOf cs c = (c \<in> set cs)"

definition isAlnum :: "char \<Rightarrow> bool" where
  \<comment> \<open>\<open>[a-zA-Z0-9]\<close>\<close>
  "isAlnum c = (isAsciiLetter c \<or> isDigit c)"

section \<open>Objects used as maps\<close>

text \<open>
  A property read \<open>obj[name]\<close> on an ordinary object finds the object's own
  properties and, for a name the object does not have, the properties of
  \<open>Object.prototype\<close>. These are its property names; every one of them has a truthy
  value (a function, or the prototype itself for \<open>__proto__\<close>).
\<close>

definition objectPrototypeNames :: "string list" where
  "objectPrototypeNames =
     [''constructor'', ''__defineGetter__'', ''__defineSetter__'', ''hasOwnProperty'',
      ''__lookupGetter__'', ''__lookupSetter__'', ''isPrototypeOf'',
      ''propertyIsEnumerable'', ''toString'', ''valueOf'', ''__proto__'',
      ''toLocaleString'']"

section \<open>File types and the format detector\<close>

datatype FileType =
  FT_json | FT_xliff | FT_sdlxliff | FT_xml | FT_po | FT_pot | FT_strings
  | FT_yaml | FT_yml | FT_properties | FT_resx | FT_csv | FT_tmx | FT_tsv

definition SUPPORTED_FILE_EXTENSIONS :: "(string \<times> FileType) list" where
  "SUPPORTED_FILE_EXTENSIONS =
     [(''.json'', FT_json), (''.xliff'', FT_xliff), (''.xlf'', FT_xliff),
      (''.sdlxliff'', FT_sdlxliff), (''.xml'', FT_xml), (''.po'', FT_po),
      (''.pot'', FT_pot), (''.strings'', FT_strings), (''.yaml'', FT_yaml),
      (''.yml'', FT_yml), (''.properties'', FT_properties), (''.resx'', FT_resx),
      (''.csv'', FT_csv), (''.tmx'', FT_tmx), (''.tsv'', FT_tsv)]"

text \<open>
  The detector takes the position of the last dot in the file name as it is written,
  and reads the lowercased name from that position on. Lowercasing does not keep
  the length of every text: the lowercase of the letter \<open>U+0130\<close> is the two code units
  \<open>U+0069 U+0307\<close>. So a file name is modelled here with all its UTF-16 code units, as a
  list of numbers below 65536, and \<open>String.prototype.toLowerCase\<close>, which follows the
  case tables of Unicode, is a parameter of the detector.
\<close>

type_synonym codeUnits = "nat list"

type_synonym lowerCase = "codeUnits \<Rightarrow> codeUnits"

definition codeUnitsOf :: "string \<Rightarrow> codeUnits" where
  \<comment> \<open>the code units of a text whose code units are below \<open>U+0100\<close>\<close>
  "codeUnitsOf s = map of_char s"

definition fullStop :: nat where
  \<comment> \<open>the code unit of the dot\<close>
  "fullStop = 46"

text \<open>
  \<open>SUPPORTED_FILE_EXTENSIONS[extension]\<close> is a property read on an ordinary object, so
  a name the table does not hold is looked up on \<open>Object.prototype\<close>. A value found
  there is truthy, so \<open>|| null\<close> keeps it: the detector then returns something that is
  neither a format tag nor \<open>null\<close>.
\<close>

datatype Detected = Tag FileType | Inherited string | NoType

definition finalExtension :: "lowerCase \<Rightarrow> codeUnits \<Rightarrow> codeUnits" where
  \<comment> \<open>\<open>fileName.toLowerCase().substring(fileName.lastIndexOf('.'))\<close>\<close>
  "finalExtension toLower fileName =
     substringFrom (toLower fileName) (lastIndexOf fileName fullStop)"

definition detectFileType :: "lowerCase \<Rightarrow> codeUnits \<Rightarrow> Detected" where
  "detectFileType toLower fileName =
     (let extension = finalExtension toLower fileName
      in case find (\<lambda>(ext, t). codeUnitsOf ext = extension) SUPPORTED_FILE_EXTENSIONS of
           Some (ext, t) \<Rightarrow> Tag t
         | None \<Rightarrow>
             (case find (\<lambda>name. codeUnitsOf name = extension) objectPrototypeNames of
                Some name \<Rightarrow> Inherited name
              | None \<Rightarrow> NoType))"

section \<open>The data model\<close>

text \<open>
  The interfaces of \<open>types/translation.ts\<close>. Field names carry a prefix where two
  interfaces share a name. An optional property is an \<open>option\<close>; the properties
  \<open>metadata\<close> and \<open>position\<close>, which no code writes, are left out. A \<open>Date\<close> is its
  time value in milliseconds.
\<close>

type_synonym date = int

record TranslationUnit =
  u_id :: string
  u_key :: string
  u_source :: string
  u_target :: string
  u_context :: "string option"
  u_notes :: "string option"
  u_filePath :: string
  u_lineNumber :: "nat option"
  u_index :: nat

record TranslationFile =
  f_id :: string
  f_name :: string
  f_type :: FileType
  f_sourceLanguage :: string
  f_targetLanguage :: string
  f_units :: "TranslationUnit list"
  f_uploadedAt :: date
  f_size :: nat

record GlossaryTerm =
  g_source :: string
  g_target :: string
  g_context :: "string option"

datatype IssueType =
    missing_translation
  | empty_translation
  | leading_trailing_spaces
  | inconsistent_brackets
  | inconsistent_placeholders
  | inconsistent_punctuation
  | inconsistent_case
  | inconsistent_numbers
  | inconsistent_urls
  | inconsistent_emails
  | too_long_translation
  | potentially_incorrect_translation
  | duplicate_translation
  | invalid_html_tags
  | invalid_xml_tags
  | special_characters_mismatch
  | formatting_issues
  | untranslated_text
  | target_same_as_source
  | key_term_mismatch
  | alphanumeric_mismatch
  | inconsistent_source
  | inconsistent_target

datatype Severity = S_error | S_warning | S_info

record QAIssue =
  i_id :: string
  i_unitId :: string
  i_type :: IssueType
  i_severity :: Severity
  i_message :: string
  i_source :: string
  i_target :: string
  i_key :: string
  i_suggestion :: "string option"
  i_index :: "nat option"

record QAStats =
  total :: nat
  errors :: nat
  warnings :: nat
  info :: nat
  byType :: "IssueType \<rightharpoonup> nat"

record QAResult =
  r_fileId :: string
  r_fileName :: string
  r_totalUnits :: nat
  issues :: "QAIssue list"
  stats :: QAStats
  completedAt :: date

text \<open>
  \<open>rules\<close> is a partial record of flags: a rule that the object does not name is
  absent from the map. (A property written \<open>undefined\<close> is falsy like \<open>false\<close>, and
  is the entry \<open>Some False\<close>.) \<open>maxLengthRatio\<close> is the rational that the finite
  double denotes.
\<close>

record QAConfig =
  rules :: "IssueType \<rightharpoonup> bool"
  maxLengthRatio :: rat
  ignorePatterns :: "string list"
  customPlaceholders :: "string list"
  checkHtmlTags :: bool
  checkXmlTags :: bool
  checkPlaceholders :: bool
  caseSensitive :: bool
  glossary :: "GlossaryTerm list option"

definition DEFAULT_RULES :: "(IssueType \<times> bool) list" where
  "DEFAULT_RULES =
     [(missing_translation, True), (empty_translation, True),
      (leading_trailing_spaces, True), (inconsistent_brackets, True),
      (inconsistent_placeholders, True), (inconsistent_punctuation, True),
      (inconsistent_case, False), (inconsistent_numbers, True),
      (inconsistent_urls, True), (inconsistent_emails, True),
      (too_long_translation, True), (potentially_incorrect_translation, False),
      (duplicate_translation, True), (invalid_html_tags, True),
      (invalid_xml_tags, True), (special_characters_mismatch, True),
      (formatting_issues, True), (untranslated_text, True),
      (target_same_as_source, True), (key_term_mismatch, True),
      (alphanumeric_mismatch, True), (inconsistent_source, True),
      (inconsistent_target, True)]"

definition DEFAULT_CONFIG :: QAConfig where
  "DEFAULT_CONFIG =
     \<lparr>rules = map_of DEFAULT_RULES, maxLengthRatio = 3 / 2, ignorePatterns = [],
      customPlaceholders = [], checkHtmlTags = True, checkXmlTags = True,
      checkPlaceholders = True, caseSensitive = False, glossary = None\<rparr>"

section \<open>What the runtime supplies\<close>

text \<open>
  \<open>Math.random().toString(36)\<close> is read from a sequence of texts with a counter of
  the calls made so far; the counter is the only state of the engine.
\<close>

type_synonym random = "nat \<Rightarrow> string"

definition generateIssueId :: "random \<Rightarrow> nat \<Rightarrow> string" where
  \<comment> \<open>\<open>`issue_${Math.random().toString(36).substring(2, 11)}`\<close>, at the call
      number \<open>k\<close>\<close>
  "generateIssueId rnd k = ''issue_'' @ substring (rnd k) 2 11"

definition generateId :: "random \<Rightarrow> nat \<Rightarrow> string" where
  \<comment> \<open>\<open>Math.random().toString(36).substring(2, 15)\<close>\<close>
  "generateId rnd k = substring (rnd k) 2 15"

text \<open>
  The length rule divides and multiplies doubles and prints them with \<open>toFixed\<close>.
  These three computations are parameters of the model, so that what is proved
  holds whatever IEEE-754 arithmetic yields.
\<close>

record FloatOps =
  ratioExceeds :: "nat \<Rightarrow> nat \<Rightarrow> rat \<Rightarrow> bool"
    \<comment> \<open>\<open>t / s > maxRatio\<close>, for the lengths \<open>t\<close> and \<open>s\<close>\<close>
  ratioPercent :: "nat \<Rightarrow> nat \<Rightarrow> string"
    \<comment> \<open>\<open>((t / s) * 100).toFixed(0)\<close>\<close>
  maxPercent :: "rat \<Rightarrow> string"
    \<comment> \<open>\<open>(maxRatio * 100).toFixed(0)\<close>\<close>

section \<open>The rule library\<close>

text \<open>
  Every rule of the source builds its issue with a fresh \<open>generateIssueId()\<close>. Here a
  rule receives the identifier that this call would return as its first argument;
  \<open>checkUnit\<close> advances the counter exactly when the rule returns an issue.
\<close>

definition mkIssue ::
  "string \<Rightarrow> TranslationUnit \<Rightarrow> IssueType \<Rightarrow> Severity \<Rightarrow> string \<Rightarrow> string option \<Rightarrow> QAIssue"
where
  "mkIssue iid unit ty sev msg sugg =
     \<lparr>i_id = iid, i_unitId = u_id unit, i_type = ty, i_severity = sev, i_message = msg,
      i_source = u_source unit, i_target = u_target unit, i_key = u_key unit,
      i_suggestion = sugg, i_index = None\<rparr>"

definition dq :: string where
  \<comment> \<open>a double quote\<close>
  "dq = [CHR 0x22]"

definition countChar :: "char \<Rightarrow> string \<Rightarrow> nat" where
  \<comment> \<open>\<open>(s.match(new RegExp(c, 'g')) || []).length\<close> for an escaped character\<close>
  "countChar c s = length (filter (\<lambda>x. x = c) s)"

definition checkMissingTranslation :: "string \<Rightarrow> TranslationUnit \<Rightarrow> QAIssue option" where
  "checkMissingTranslation iid unit =
     (if u_target unit = [] \<or> trim (u_target unit) = []
      then Some (mkIssue iid unit missing_translation S_error ''Translation is missing''
                   (Some (u_source unit)))
      else None)"

definition checkEmptyTranslation :: "string \<Rightarrow> TranslationUnit \<Rightarrow> QAIssue option" where
  "checkEmptyTranslation iid unit =
     (if u_target unit \<noteq> [] \<and> trim (u_target unit) = [] \<and> 0 < length (u_target unit)
      then Some (mkIssue iid unit empty_translation S_error
                   ''Translation contains only whitespace'' (Some (u_source unit)))
      else None)"

definition checkLeadingTrailingSpaces :: "string \<Rightarrow> TranslationUnit \<Rightarrow> QAIssue option" where
  "checkLeadingTrailingSpaces iid unit =
     (let sourceHasLeading = rxTest [Bol, One isSpace] (u_source unit);
          sourceHasTrailing = rxTest [One isSpace, Eol] (u_source unit);
          targetHasLeading = rxTest [Bol, One isSpace] (u_target unit);
          targetHasTrailing = rxTest [One isSpace, Eol] (u_target unit)
      in if sourceHasLeading \<noteq> targetHasLeading \<or> sourceHasTrailing \<noteq> targetHasTrailing
         then Some (mkIssue iid unit leading_trailing_spaces S_warning
                (''Inconsistent '' @ join '' and ''
                   ((if sourceHasLeading \<noteq> targetHasLeading then [''leading spaces''] else [])
                    @ (if sourceHasTrailing \<noteq> targetHasTrailing then [''trailing spaces'']
                       else [])))
                (Some ((if sourceHasLeading \<and> \<not> targetHasLeading then '' '' else [])
                       @ trim (u_target unit)
                       @ (if sourceHasTrailing \<and> \<not> targetHasTrailing then '' '' else []))))
         else None)"

definition brackets :: "(char \<times> char) list" where
  "brackets = [(CHR ''('', CHR '')''), (CHR ''['', CHR '']''), (CHR ''{'', CHR ''}''),
               (CHR ''<'', CHR ''>'')]"

definition checkInconsistentBrackets :: "string \<Rightarrow> TranslationUnit \<Rightarrow> QAIssue option" where
  "checkInconsistentBrackets iid unit =
     (case find (\<lambda>(opn, cls).
                   countChar opn (u_source unit) \<noteq> countChar opn (u_target unit)
                   \<or> countChar cls (u_source unit) \<noteq> countChar cls (u_target unit))
             brackets of
        Some (opn, cls) \<Rightarrow>
          Some (mkIssue iid unit inconsistent_brackets S_error
                  (''Inconsistent '' @ [opn, cls] @ '' brackets'') None)
      | None \<Rightarrow> None)"

definition printfPattern :: regex where
  \<comment> \<open>\<open>/%\d*\$?[sdif]/g\<close>\<close>
  "printfPattern =
     [lit CHR ''%'', Many 0 isDigit, Opt (\<lambda>c. c = CHR ''$''), One (oneOf ''sdif'')]"

definition mustachePattern :: regex where
  \<comment> \<open>\<open>/\{\{?\s*\w+\s*\}?\}/g\<close>\<close>
  "mustachePattern =
     [lit CHR ''{'', Opt (\<lambda>c. c = CHR ''{''), Many 0 isSpace, Many 1 isWord, Many 0 isSpace,
      Opt (\<lambda>c. c = CHR ''}''), lit CHR ''}'']"

definition shellPattern :: regex where
  \<comment> \<open>\<open>/\$\{\w+\}/g\<close>\<close>
  "shellPattern = [lit CHR ''$'', lit CHR ''{'', Many 1 isWord, lit CHR ''}'']"

definition symbolPattern :: regex where
  \<comment> \<open>\<open>/:\w+/g\<close>\<close>
  "symbolPattern = [lit CHR '':'', Many 1 isWord]"

definition pythonPattern :: regex where
  \<comment> \<open>\<open>/%\(\w+\)s/g\<close>\<close>
  "pythonPattern = [lit CHR ''%'', lit CHR ''('', Many 1 isWord, lit CHR '')'', lit CHR ''s'']"

definition bracePattern :: regex where
  \<comment> \<open>\<open>/\{\w+\}/g\<close>\<close>
  "bracePattern = [lit CHR ''{'', Many 1 isWord, lit CHR ''}'']"

definition placeholderPatterns :: "regex list" where
  "placeholderPatterns =
     [printfPattern, mustachePattern, shellPattern, symbolPattern, pythonPattern,
      bracePattern]"

definition checkInconsistentPlaceholders :: "string \<Rightarrow> TranslationUnit \<Rightarrow> QAIssue option" where
  "checkInconsistentPlaceholders iid unit =
     (case find (\<lambda>pattern. length (matchAll pattern (u_source unit))
                             \<noteq> length (matchAll pattern (u_target unit)))
             placeholderPatterns of
        Some pattern \<Rightarrow>
          (let sourcePlaceholders = matchAll pattern (u_source unit);
               targetPlaceholders = matchAll pattern (u_target unit)
           in Some (mkIssue iid unit inconsistent_placeholders S_error
                (''Placeholder count mismatch: expected '' @ showNat (length sourcePlaceholders)
                 @ '', found '' @ showNat (length targetPlaceholders))
                (Some (''Ensure all placeholders ('' @ join '', '' sourcePlaceholders
                       @ '') are preserved''))))
      | None \<Rightarrow> None)"

definition punctuationMarks :: "string list" where
  "punctuationMarks = [''.'', ''!'', ''?'', '':'', '';'', '','']"

definition checkInconsistentPunctuation :: "string \<Rightarrow> TranslationUnit \<Rightarrow> QAIssue option" where
  "checkInconsistentPunctuation iid unit =
     (let sourceEnd = slice_last (u_source unit); targetEnd = slice_last (u_target unit)
      in if sourceEnd \<in> set punctuationMarks \<and> sourceEnd \<noteq> targetEnd
         then Some (mkIssue iid unit inconsistent_punctuation S_warning
                (''Inconsistent ending punctuation: source ends with '' @ dq @ sourceEnd @ dq)
                (Some (u_target unit @ sourceEnd)))
         else None)"

definition checkInconsistentNumbers :: "string \<Rightarrow> TranslationUnit \<Rightarrow> QAIssue option" where
  "checkInconsistentNumbers iid unit =
     (let sourceNumbers = matchAll [Many 1 isDigit] (u_source unit);
          targetNumbers = matchAll [Many 1 isDigit] (u_target unit)
      in if length sourceNumbers \<noteq> length targetNumbers
         then Some (mkIssue iid unit inconsistent_numbers S_warning
                (''Number count mismatch: expected '' @ showNat (length sourceNumbers)
                 @ '', found '' @ showNat (length targetNumbers)) None)
         else None)"

definition urlPattern :: regex where
  \<comment> \<open>\<open>/https?:\/\/[^\s]+/g\<close>\<close>
  "urlPattern =
     [lit CHR ''h'', lit CHR ''t'', lit CHR ''t'', lit CHR ''p'', Opt (\<lambda>c. c = CHR ''s''),
      lit CHR '':'', lit CHR ''/'', lit CHR ''/'', Many 1 (\<lambda>c. \<not> isSpace c)]"

definition checkInconsistentURLs :: "string \<Rightarrow> TranslationUnit \<Rightarrow> QAIssue option" where
  "checkInconsistentURLs iid unit =
     (let sourceUrls = matchAll urlPattern (u_source unit);
          targetUrls = matchAll urlPattern (u_target unit)
      in if length sourceUrls \<noteq> length targetUrls
         then Some (mkIssue iid unit inconsistent_urls S_warning
                (''URL count mismatch: expected '' @ showNat (length sourceUrls)
                 @ '', found '' @ showNat (length targetUrls))
                (Some (join '', '' sourceUrls)))
         else None)"

definition emailPattern :: regex where
  \<comment> \<open>\<open>/[\w.-]+@[\w.-]+\.\w+/g\<close>\<close>
  "emailPattern =
     [Many 1 (\<lambda>c. isWord c \<or> oneOf ''.-'' c), lit CHR ''@'',
      Many 1 (\<lambda>c. isWord c \<or> oneOf ''.-'' c), lit CHR ''.'', Many 1 isWord]"

definition checkInconsistentEmails :: "string \<Rightarrow> TranslationUnit \<Rightarrow> QAIssue option" where
  "checkInconsistentEmails iid unit =
     (let sourceEmails = matchAll emailPattern (u_source unit);
          targetEmails = matchAll emailPattern (u_target unit)
      in if length sourceEmails \<noteq> length targetEmails
         then Some (mkIssue iid unit inconsistent_emails S_warning
                (''Email count mismatch: expected '' @ showNat (length sourceEmails)
                 @ '', found '' @ showNat (length targetEmails)) None)
         else None)"

definition checkTooLongTranslation ::
  "FloatOps \<Rightarrow> string \<Rightarrow> TranslationUnit \<Rightarrow> rat \<Rightarrow> QAIssue option"
where
  "checkTooLongTranslation F iid unit maxRatio =
     (if 0 < length (u_source unit)
      then (if ratioExceeds F (length (u_target unit)) (length (u_source unit)) maxRatio
            then Some (mkIssue iid unit too_long_translation S_warning
                   (''Translation is ''
                    @ ratioPercent F (length (u_target unit)) (length (u_source unit))
                    @ ''% longer than source (max '' @ maxPercent F maxRatio @ ''%)'') None)
            else None)
      else None)"

definition checkDuplicateTranslation ::
  "string \<Rightarrow> TranslationUnit \<Rightarrow> TranslationUnit list \<Rightarrow> QAIssue option"
where
  "checkDuplicateTranslation iid unit allUnits =
     (let duplicates = filter (\<lambda>u. u_id u \<noteq> u_id unit \<and> u_source u = u_source unit
                                    \<and> u_target u = u_target unit \<and> u_target u \<noteq> []) allUnits
      in if 0 < length duplicates
         then Some (mkIssue iid unit duplicate_translation S_info
                (''Duplicate translation found ('' @ showNat (length duplicates) @ '' instance''
                 @ (if 1 < length duplicates then ''s'' else []) @ '')'') None)
         else None)"

definition htmlTagPattern :: regex where
  \<comment> \<open>\<open>/<\/?([a-zA-Z][a-zA-Z0-9]*)[^>]*>/g\<close>; the rule reads the same pattern
      without the group for \<open>targetMatches\<close>.\<close>
  "htmlTagPattern =
     [lit CHR ''<'', Opt (\<lambda>c. c = CHR ''/''), GrpOpen, One isAsciiLetter, Many 0 isAlnum,
      GrpClose, Many 0 (\<lambda>c. c \<noteq> CHR ''>''), lit CHR ''>'']"

definition voidElements :: "string list" where
  "voidElements = [''br'', ''hr'', ''img'', ''input'', ''meta'', ''link'']"

definition firstPiece :: "string list \<Rightarrow> string" where
  \<comment> \<open>\<open>parts[0]\<close> of the result of a \<open>split\<close>, which is never empty\<close>
  "firstPiece ps = (case ps of [] \<Rightarrow> [] | p # _ \<Rightarrow> p)"

text \<open>
  The loop over \<open>targetMatches\<close> with its stack \<open>openTags\<close> (the top is the last
  element): \<open>Inl tag\<close> is the early return at an unmatched closing tag, \<open>Inr\<close> the
  stack left when the loop ends.
\<close>

fun htmlTagLoop :: "string list \<Rightarrow> string list \<Rightarrow> string + string list" where
  "htmlTagLoop [] openTags = Inr openTags"
| "htmlTagLoop (tag # tags) openTags =
     (if startsWith tag ''</''
      then (let tagName = toLowerCase (replaceFirst ''>'' [] (replaceFirst ''</'' [] tag))
            in if length openTags = 0 \<or> last openTags \<noteq> tagName then Inl tag
               else htmlTagLoop tags (butlast openTags))
      else if \<not> endsWith tag ''/>''
      then (let tagName = toLowerCase (firstPiece (split_char CHR '' ''
                            (replaceFirst ''>'' [] (replaceFirst ''<'' [] tag))))
            in if tagName \<notin> set voidElements then htmlTagLoop tags (openTags @ [tagName])
               else htmlTagLoop tags openTags)
      else htmlTagLoop tags openTags)"

text \<open>
  The arrays \<open>sourceTags\<close> and \<open>targetTags\<close> that the rule fills first are never read,
  and the two \<open>exec\<close> loops leave \<open>lastIndex\<close> at 0; they have no part in the result.
\<close>

definition checkInvalidHtmlTags :: "string \<Rightarrow> TranslationUnit \<Rightarrow> QAIssue option" where
  "checkInvalidHtmlTags iid unit =
     (case htmlTagLoop (matchAll htmlTagPattern (u_target unit)) [] of
        Inl tag \<Rightarrow>
          Some (mkIssue iid unit invalid_html_tags S_error
                  (''Unmatched closing tag: '' @ tag) None)
      | Inr openTags \<Rightarrow>
          (if 0 < length openTags
           then Some (mkIssue iid unit invalid_html_tags S_error
                        (''Unclosed HTML tags: '' @ join '', '' openTags) None)
           else None))"

definition xmlTagPattern :: regex where
  \<comment> \<open>\<open>/<([a-zA-Z_][a-zA-Z0-9_]*)([^>]*)>/g\<close>\<close>
  "xmlTagPattern =
     [lit CHR ''<'', GrpOpen, One (\<lambda>c. isAsciiLetter c \<or> c = CHR ''_''), Many 0 isWord,
      GrpClose, GrpOpen, Many 0 (\<lambda>c. c \<noteq> CHR ''>''), GrpClose, lit CHR ''>'']"

definition group1 :: "rmatch \<Rightarrow> string" where
  \<comment> \<open>\<open>match[1]\<close>\<close>
  "group1 m = firstPiece (m_groups m)"

definition checkInvalidXmlTags :: "string \<Rightarrow> TranslationUnit \<Rightarrow> QAIssue option" where
  \<comment> \<open>A \<open>Set\<close> is iterated in insertion order, so the tag reported is the first tag
      name of the target that the source does not have.\<close>
  "checkInvalidXmlTags iid unit =
     (let sourceTags = map group1 (matches xmlTagPattern (u_source unit));
          targetTags = map group1 (matches xmlTagPattern (u_target unit))
      in case find (\<lambda>tag. tag \<notin> set sourceTags) targetTags of
           Some tag \<Rightarrow>
             Some (mkIssue iid unit invalid_xml_tags S_warning
                     (''XML tag '' @ dq @ tag @ dq @ '' not found in source'') None)
         | None \<Rightarrow> None)"

definition specialChars :: "char list" where
  \<comment> \<open>line feed, tab, backslash, double quote, single quote\<close>
  "specialChars = [CHR 0x0A, CHR 0x09, CHR 0x5C, CHR 0x22, CHR 0x27]"

definition specialCharName :: "char \<Rightarrow> string" where
  \<comment> \<open>the character as the message shows it: a line feed and a tab are written as a
      backslash followed by \<open>n\<close> or \<open>t\<close>\<close>
  "specialCharName c =
     (if c = CHR 0x0A then [CHR 0x5C, CHR ''n'']
      else if c = CHR 0x09 then [CHR 0x5C, CHR ''t'']
      else [c])"

definition checkSpecialCharactersMismatch :: "string \<Rightarrow> TranslationUnit \<Rightarrow> QAIssue option" where
  "checkSpecialCharactersMismatch iid unit =
     (case find (\<lambda>c. countChar c (u_source unit) \<noteq> countChar c (u_target unit))
             specialChars of
        Some c \<Rightarrow>
          Some (mkIssue iid unit special_characters_mismatch S_warning
                  (''Special character '' @ dq @ specialCharName c @ dq @ '' count mismatch'')
                  None)
      | None \<Rightarrow> None)"

definition checkFormattingIssues :: "string \<Rightarrow> TranslationUnit \<Rightarrow> QAIssue option" where
  "checkFormattingIssues iid unit =
     (if rxTest [Many 2 isSpace] (u_target unit) \<and> \<not> rxTest [Many 2 isSpace] (u_source unit)
      then Some (mkIssue iid unit formatting_issues S_info
                   ''Multiple consecutive spaces in translation''
                   (Some (rxReplaceAll [Many 2 isSpace] '' '' (u_target unit))))
      else if rxTest [lit CHR 0x0D, lit CHR 0x0A] (u_target unit)
              \<and> \<not> rxTest [lit CHR 0x0D, lit CHR 0x0A] (u_source unit)
      then Some (mkIssue iid unit formatting_issues S_info
                   ''Inconsistent line endings (CRLF vs LF)'' None)
      else None)"

definition checkUntranslatedText :: "string \<Rightarrow> TranslationUnit \<Rightarrow> QAIssue option" where
  \<comment> \<open>\<open>untranslatedWords / words.length > 0.5\<close> compares a quotient of two counts
      with one half, which the doubles decide exactly: it is \<open>words.length <
      2 * untranslatedWords\<close>.\<close>
  "checkUntranslatedText iid unit =
     (if length (u_source unit) < 5 \<or> rxTest [Bol, Many 1 isDigit, Eol] (u_source unit)
      then None
      else (let ws = filter (\<lambda>w. 3 < length w) (rxSplit [Many 1 isSpace] (u_source unit));
                untranslatedWords =
                  length (filter (\<lambda>w. str_includes (toLowerCase (u_target unit))
                                          (toLowerCase w)) ws)
            in if 0 < length ws \<and> length ws < 2 * untranslatedWords
               then Some (mkIssue iid unit untranslated_text S_warning
                            ''Translation appears to contain untranslated text'' None)
               else None))"

definition checkTargetSameAsSource :: "string \<Rightarrow> TranslationUnit \<Rightarrow> QAIssue option" where
  \<comment> \<open>the guard is \<open>unit.source.length < 3 || /^[\d\s\W]+$/.test(unit.source)\<close>\<close>
  "checkTargetSameAsSource iid unit =
     (if length (u_source unit) < 3
         \<or> rxTest [Bol, Many 1 (\<lambda>c. isDigit c \<or> isSpace c \<or> \<not> isWord c), Eol] (u_source unit)
      then None
      else if trim (toLowerCase (u_source unit)) = trim (toLowerCase (u_target unit))
      then Some (mkIssue iid unit target_same_as_source S_info
                   ''Translation is identical to source text'' None)
      else None)"

definition termRegex :: "string \<Rightarrow> regex" where
  \<comment> \<open>\<open>new RegExp(`\\b${escaped}\\b`, 'i')\<close>: the term, every character taken
      literally and without regard to case, between two word boundaries\<close>
  "termRegex t = [WordB] @ map (\<lambda>c. One (\<lambda>x. lowerChar x = lowerChar c)) t @ [WordB]"

definition arrow :: string where
  \<comment> \<open>the arrow \<open>U+2192\<close> of the message, which lies outside the characters of the
      model, written as its three UTF-8 bytes\<close>
  "arrow = [CHR 0xE2, CHR 0x86, CHR 0x92]"

definition checkKeyTermMismatch ::
  "string \<Rightarrow> TranslationUnit \<Rightarrow> GlossaryTerm list \<Rightarrow> QAIssue option"
where
  "checkKeyTermMismatch iid unit gloss =
     (if length gloss = 0 then None
      else (let foundTerms =
                  filter (\<lambda>t. g_source t \<noteq> [] \<and> g_target t \<noteq> []
                               \<and> rxTest (termRegex (g_source t)) (u_source unit)
                               \<and> \<not> rxTest (termRegex (g_target t)) (u_target unit)) gloss
            in if 0 < length foundTerms
               then Some (mkIssue iid unit key_term_mismatch S_warning
                      (''Glossary term mismatch. Expected translations: ''
                       @ join '', '' (map (\<lambda>t. dq @ g_source t @ dq @ '' '' @ arrow @ '' ''
                                                  @ dq @ g_target t @ dq) foundTerms))
                      (Some (join '', '' (map g_target foundTerms))))
               else None))"

text \<open>
  \<open>sourceMap\<close> and \<open>targetMap\<close> are ordinary objects used as counters, and the rule
  asks \<open>!targetMap[a]\<close>. A run that was counted has a positive count; a run that
  was not counted is still found when \<open>Object.prototype\<close> has a property of that
  name, whose value is truthy.
\<close>

definition counted :: "string list \<Rightarrow> string \<Rightarrow> bool" where
  \<comment> \<open>\<open>map[a]\<close> is truthy, for the counter \<open>map\<close> of the runs \<open>alphas\<close>\<close>
  "counted alphas a = (a \<in> set alphas \<or> a \<in> set objectPrototypeNames)"

definition distinctInOrder :: "string list \<Rightarrow> string list" where
  \<comment> \<open>\<open>Array.from(new Set(xs))\<close>: the first occurrence of each element, in order\<close>
  "distinctInOrder xs = rev (remdups (rev xs))"

definition checkAlphanumericMismatch :: "string \<Rightarrow> TranslationUnit \<Rightarrow> QAIssue option" where
  "checkAlphanumericMismatch iid unit =
     (let sourceAlphas = matchAll [Many 1 isAlnum] (u_source unit);
          targetAlphas = matchAll [Many 1 isAlnum] (u_target unit);
          missingInTarget = filter (\<lambda>a. \<not> counted targetAlphas a) sourceAlphas;
          extraInTarget = filter (\<lambda>a. \<not> counted sourceAlphas a) targetAlphas
      in if 0 < length missingInTarget \<or> 0 < length extraInTarget
         then Some (mkIssue iid unit alphanumeric_mismatch S_warning
                (''Alphanumeric mismatch.''
                 @ (if 0 < length missingInTarget
                    then '' Missing in target: ''
                         @ join '', '' (distinctInOrder missingInTarget) @ ''.''
                    else [])
                 @ (if 0 < length extraInTarget
                    then '' Extra in target: ''
                         @ join '', '' (distinctInOrder extraInTarget) @ ''.''
                    else []))
                None)
         else None)"

definition checkInconsistentSource ::
  "string \<Rightarrow> TranslationUnit \<Rightarrow> TranslationUnit list \<Rightarrow> QAIssue option"
where
  "checkInconsistentSource iid unit allUnits =
     (let duplicates = filter (\<lambda>u. u_id u \<noteq> u_id unit \<and> u_target u = u_target unit
                                    \<and> u_source u \<noteq> u_source unit) allUnits
      in if 0 < length duplicates
         then Some (mkIssue iid unit inconsistent_source S_warning
                ''Inconsistent source: the same translation is used for different source texts.''
                None)
         else None)"

definition checkInconsistentTarget ::
  "string \<Rightarrow> TranslationUnit \<Rightarrow> TranslationUnit list \<Rightarrow> QAIssue option"
where
  "checkInconsistentTarget iid unit allUnits =
     (let duplicates = filter (\<lambda>u. u_id u \<noteq> u_id unit \<and> u_source u = u_source unit
                                    \<and> u_target u \<noteq> u_target unit) allUnits
      in if 0 < length duplicates
         then Some (mkIssue iid unit inconsistent_target S_warning
                ''Inconsistent target: the same source text has multiple different translations.''
                None)
         else None)"

section \<open>The analyzer driver\<close>

definition mergedRules :: "QAConfig \<Rightarrow> IssueType \<rightharpoonup> bool" where
  \<comment> \<open>\<open>{ ...DEFAULT_CONFIG.rules, ...config.rules }\<close>\<close>
  "mergedRules config = rules DEFAULT_CONFIG ++ rules config"

definition enabled :: "QAConfig \<Rightarrow> IssueType \<Rightarrow> bool" where
  \<comment> \<open>\<open>rules[rule]\<close> is truthy\<close>
  "enabled config rule = (mergedRules config rule = Some True)"

definition checks ::
  "FloatOps \<Rightarrow> TranslationUnit \<Rightarrow> TranslationUnit list \<Rightarrow> QAConfig
   \<Rightarrow> ((string \<Rightarrow> QAIssue option) \<times> IssueType) list"
where
  "checks F unit allUnits config =
     [(\<lambda>iid. checkMissingTranslation iid unit, missing_translation),
      (\<lambda>iid. checkEmptyTranslation iid unit, empty_translation),
      (\<lambda>iid. checkLeadingTrailingSpaces iid unit, leading_trailing_spaces),
      (\<lambda>iid. checkInconsistentBrackets iid unit, inconsistent_brackets),
      (\<lambda>iid. checkInconsistentPlaceholders iid unit, inconsistent_placeholders),
      (\<lambda>iid. checkInconsistentPunctuation iid unit, inconsistent_punctuation),
      (\<lambda>iid. checkInconsistentNumbers iid unit, inconsistent_numbers),
      (\<lambda>iid. checkInconsistentURLs iid unit, inconsistent_urls),
      (\<lambda>iid. checkInconsistentEmails iid unit, inconsistent_emails),
      (\<lambda>iid. checkTooLongTranslation F iid unit (maxLengthRatio config), too_long_translation),
      (\<lambda>iid. checkDuplicateTranslation iid unit allUnits, duplicate_translation),
      (\<lambda>iid. checkInvalidHtmlTags iid unit, invalid_html_tags),
      (\<lambda>iid. checkInvalidXmlTags iid unit, invalid_xml_tags),
      (\<lambda>iid. checkSpecialCharactersMismatch iid unit, special_characters_mismatch),
      (\<lambda>iid. checkFormattingIssues iid unit, formatting_issues),
      (\<lambda>iid. checkUntranslatedText iid unit, untranslated_text),
      (\<lambda>iid. checkTargetSameAsSource iid unit, target_same_as_source),
      (\<lambda>iid. checkKeyTermMismatch iid unit (case glossary config of None \<Rightarrow> [] | Some g \<Rightarrow> g),
         key_term_mismatch),
      (\<lambda>iid. checkAlphanumericMismatch iid unit, alphanumeric_mismatch),
      (\<lambda>iid. checkInconsistentSource iid unit allUnits, inconsistent_source),
      (\<lambda>iid. checkInconsistentTarget iid unit allUnits, inconsistent_target)]"

text \<open>
  The loop of \<open>checkUnit\<close> over \<open>checks\<close>: the issues pushed so far and the number
  of random identifiers drawn so far are its state.
\<close>

fun runChecks ::
  "random \<Rightarrow> QAConfig \<Rightarrow> TranslationUnit \<Rightarrow> ((string \<Rightarrow> QAIssue option) \<times> IssueType) list
   \<Rightarrow> QAIssue list \<times> nat \<Rightarrow> QAIssue list \<times> nat"
where
  "runChecks rnd config unit [] (acc, k) = (acc, k)"
| "runChecks rnd config unit ((check, rule) # cs) (acc, k) =
     (if enabled config rule
      then (case check (generateIssueId rnd k) of
              Some issue \<Rightarrow>
                runChecks rnd config unit cs
                  (acc @ [issue\<lparr>i_index := Some (u_index unit)\<rparr>], Suc k)
            | None \<Rightarrow> runChecks rnd config unit cs (acc, k))
      else runChecks rnd config unit cs (acc, k))"

definition checkUnit ::
  "FloatOps \<Rightarrow> random \<Rightarrow> nat \<Rightarrow> TranslationUnit \<Rightarrow> TranslationUnit list \<Rightarrow> QAConfig
   \<Rightarrow> QAIssue list \<times> nat"
where
  "checkUnit F rnd k unit allUnits config =
     runChecks rnd config unit (checks F unit allUnits config) ([], k)"

fun checkAllUnits ::
  "FloatOps \<Rightarrow> random \<Rightarrow> TranslationUnit list \<Rightarrow> QAConfig \<Rightarrow> TranslationUnit list
   \<Rightarrow> QAIssue list \<times> nat \<Rightarrow> QAIssue list \<times> nat"
where
  \<comment> \<open>the loop \<open>for (const unit of file.units)\<close> of \<open>runQA\<close>\<close>
  "checkAllUnits F rnd allUnits config [] (allIssues, k) = (allIssues, k)"
| "checkAllUnits F rnd allUnits config (unit # units) (allIssues, k) =
     (case checkUnit F rnd k unit allUnits config of
        (found, k') \<Rightarrow> checkAllUnits F rnd allUnits config units (allIssues @ found, k'))"

fun countByType :: "QAIssue list \<Rightarrow> (IssueType \<rightharpoonup> nat) \<Rightarrow> (IssueType \<rightharpoonup> nat)" where
  \<comment> \<open>\<open>stats.byType[issue.type] = (stats.byType[issue.type] || 0) + 1\<close>, issue by
      issue\<close>
  "countByType [] m = m"
| "countByType (issue # rest) m =
     countByType rest
       (m(i_type issue \<mapsto> (case m (i_type issue) of None \<Rightarrow> 0 | Some n \<Rightarrow> n) + 1))"

definition runQA ::
  "FloatOps \<Rightarrow> random \<Rightarrow> nat \<Rightarrow> date \<Rightarrow> TranslationFile \<Rightarrow> QAConfig \<Rightarrow> QAResult \<times> nat"
where
  \<comment> \<open>\<open>k\<close> random identifiers were drawn before the call, \<open>now\<close> is \<open>new Date()\<close>;
      the result comes with the number of identifiers drawn after the call.\<close>
  "runQA F rnd k now file config =
     (case checkAllUnits F rnd (f_units file) config (f_units file) ([], k) of
        (allIssues, k') \<Rightarrow>
          (\<lparr>r_fileId = f_id file, r_fileName = f_name file,
            r_totalUnits = length (f_units file), issues = allIssues,
            stats = \<lparr>total = length allIssues,
                      errors = length (filter (\<lambda>i. i_severity i = S_error) allIssues),
                      warnings = length (filter (\<lambda>i. i_severity i = S_warning) allIssues),
                      info = length (filter (\<lambda>i. i_severity i = S_info) allIssues),
                      byType = countByType allIssues Map.empty\<rparr>,
            completedAt = now\<rparr>, k'))"

section \<open>The bundle parsers\<close>

text \<open>
  A parser returns the file together with the number of random identifiers drawn
  so far, or the \<open>FileParserError\<close> it throws (its message and the file name).
  \<open>now\<close> is the value of \<open>new Date()\<close>.
\<close>

datatype ParseError = FileParserError string string

type_synonym 'a parsed = "ParseError + 'a \<times> nat"

definition newFile ::
  "random \<Rightarrow> nat \<Rightarrow> date \<Rightarrow> string \<Rightarrow> string \<Rightarrow> FileType \<Rightarrow> string \<Rightarrow> string
   \<Rightarrow> TranslationUnit list \<Rightarrow> TranslationFile \<times> nat"
where
  \<comment> \<open>the object that every parser returns, built after the units\<close>
  "newFile rnd k now content fileName ty sourceLang targetLang units =
     (\<lparr>f_id = generateId rnd k, f_name = fileName, f_type = ty,
       f_sourceLanguage = sourceLang, f_targetLanguage = targetLang, f_units = units,
       f_uploadedAt = now, f_size = length content\<rparr>, Suc k)"

subsection \<open>JSON\<close>

text \<open>
  A value as \<open>JSON.parse\<close> returns it. The entries of an object are listed in the
  order in which \<open>Object.entries\<close> enumerates them, each key once. A number is the
  rational that the double denotes. \<open>JSON.parse\<close> itself is a parameter of the parser:
  it returns \<open>None\<close> where JavaScript's throws a \<open>SyntaxError\<close>.
\<close>

datatype json =
    JNull
  | JBool bool
  | JNumber rat
  | JString string
  | JArray "json list"
  | JObject "(string \<times> json) list"

type_synonym jsonParser = "string \<Rightarrow> json option"

definition truthy :: "json \<Rightarrow> bool" where
  "truthy v =
     (case v of
        JNull \<Rightarrow> False
      | JBool b \<Rightarrow> b
      | JNumber n \<Rightarrow> n \<noteq> 0
      | JString s \<Rightarrow> s \<noteq> []
      | JArray _ \<Rightarrow> True
      | JObject _ \<Rightarrow> True)"

definition jsonUnit :: "random \<Rightarrow> nat \<Rightarrow> string \<Rightarrow> string \<Rightarrow> string \<Rightarrow> nat \<Rightarrow> TranslationUnit" where
  \<comment> \<open>the unit pushed for a string \<open>value\<close> at \<open>fullKey\<close>, when \<open>n\<close> units exist\<close>
  "jsonUnit rnd k fileName fullKey v n =
     \<lparr>u_id = generateId rnd k, u_key = fullKey, u_source = v, u_target = [],
      u_context = None, u_notes = None, u_filePath = fileName, u_lineNumber = None,
      u_index = n + 1\<rparr>"

definition fullKeyOf :: "string \<Rightarrow> string \<Rightarrow> string" where
  \<comment> \<open>\<open>prefix ? `${prefix}.${key}` : key\<close>\<close>
  "fullKeyOf prefix key = (if prefix \<noteq> [] then prefix @ ''.'' @ key else key)"

text \<open>
  \<open>extractTranslations(obj, prefix)\<close> loops over \<open>Object.entries(obj)\<close>. The entries
  of an object are its properties, those of an array its elements under their
  indices. \<open>extractEntry\<close> is the body of the loop for one entry, \<open>extractEntries\<close>
  the loop over the entries of an object and \<open>extractItems\<close> the loop over the
  elements of an array from the index \<open>i\<close> on. The state is the array \<open>units\<close> and
  the number of identifiers drawn.
\<close>

fun extractEntry ::
      "random \<Rightarrow> string \<Rightarrow> string \<Rightarrow> string \<Rightarrow> json
       \<Rightarrow> TranslationUnit list \<times> nat \<Rightarrow> TranslationUnit list \<times> nat"
  and extractEntries ::
      "random \<Rightarrow> string \<Rightarrow> string \<Rightarrow> (string \<times> json) list
       \<Rightarrow> TranslationUnit list \<times> nat \<Rightarrow> TranslationUnit list \<times> nat"
  and extractItems ::
      "random \<Rightarrow> string \<Rightarrow> string \<Rightarrow> nat \<Rightarrow> json list
       \<Rightarrow> TranslationUnit list \<times> nat \<Rightarrow> TranslationUnit list \<times> nat"
where
  "extractEntry rnd fileName prefix key (JString s) (units, k) =
     (units @ [jsonUnit rnd k fileName (fullKeyOf prefix key) s (length units)], Suc k)"
| "extractEntry rnd fileName prefix key (JObject kvs) st =
     extractEntries rnd fileName (fullKeyOf prefix key) kvs st"
| "extractEntry rnd fileName prefix key (JArray vs) st =
     extractItems rnd fileName (fullKeyOf prefix key) 0 vs st"
| "extractEntry rnd fileName prefix key JNull st = st"
| "extractEntry rnd fileName prefix key (JBool b) st = st"
| "extractEntry rnd fileName prefix key (JNumber n) st = st"
| "extractEntries rnd fileName prefix [] st = st"
| "extractEntries rnd fileName prefix (kv # kvs) st =
     extractEntries rnd fileName prefix kvs
       (extractEntry rnd fileName prefix (fst kv) (snd kv) st)"
| "extractItems rnd fileName prefix i [] st = st"
| "extractItems rnd fileName prefix i (v # vs) st =
     extractItems rnd fileName prefix (Suc i) vs
       (extractEntry rnd fileName prefix (showNat i) v st)"

fun extractChars ::
  "random \<Rightarrow> string \<Rightarrow> string \<Rightarrow> nat \<Rightarrow> string
   \<Rightarrow> TranslationUnit list \<times> nat \<Rightarrow> TranslationUnit list \<times> nat"
where
  \<comment> \<open>the entries of a string are its characters under their indices\<close>
  "extractChars rnd fileName prefix i [] st = st"
| "extractChars rnd fileName prefix i (c # cs) st =
     extractChars rnd fileName prefix (Suc i) cs
       (extractEntry rnd fileName prefix (showNat i) (JString [c]) st)"

definition extractTranslations ::
  "random \<Rightarrow> string \<Rightarrow> json \<Rightarrow> string
   \<Rightarrow> TranslationUnit list \<times> nat \<Rightarrow> (TranslationUnit list \<times> nat) option"
where
  \<comment> \<open>\<open>None\<close> is the \<open>TypeError\<close> of \<open>Object.entries(null)\<close>; a number and a boolean
      have no entries.\<close>
  "extractTranslations rnd fileName obj prefix st =
     (case obj of
        JNull \<Rightarrow> None
      | JBool b \<Rightarrow> Some st
      | JNumber n \<Rightarrow> Some st
      | JString s \<Rightarrow> Some (extractChars rnd fileName prefix 0 s st)
      | JArray vs \<Rightarrow> Some (extractItems rnd fileName prefix 0 vs st)
      | JObject kvs \<Rightarrow> Some (extractEntries rnd fileName prefix kvs st))"

definition property :: "json \<Rightarrow> string \<Rightarrow> json option option" where
  \<comment> \<open>\<open>data.name\<close> for one of the names \<open>translations\<close>, \<open>messages\<close>, \<open>strings\<close>, which
      no prototype has: \<open>None\<close> is the \<open>TypeError\<close> of a property read on \<open>null\<close>,
      \<open>Some None\<close> is \<open>undefined\<close>.\<close>
  "property data name =
     (case data of
        JNull \<Rightarrow> None
      | JObject kvs \<Rightarrow> Some (map_of kvs name)
      | _ \<Rightarrow> Some None)"

definition orElse :: "json option \<Rightarrow> json option \<Rightarrow> json option" where
  \<comment> \<open>\<open>a || b\<close>, where \<open>None\<close> is \<open>undefined\<close>\<close>
  "orElse a b = (case a of Some v \<Rightarrow> if truthy v then a else b | None \<Rightarrow> b)"

definition isTruthy :: "json option \<Rightarrow> bool" where
  "isTruthy a = (case a of Some v \<Rightarrow> truthy v | None \<Rightarrow> False)"

definition invalidJSON :: "string \<Rightarrow> ParseError" where
  "invalidJSON fileName = FileParserError ''Invalid JSON format'' fileName"

definition jsonRoot :: "json \<Rightarrow> json option" where
  \<comment> \<open>the value that is traversed: \<open>data.translations || data.messages ||
      data.strings\<close> when that is truthy, else \<open>data\<close>; \<open>None\<close> is the \<open>TypeError\<close>
      of reading a property of \<open>null\<close>.\<close>
  "jsonRoot data =
     (case (property data ''translations'', property data ''messages'',
            property data ''strings'') of
        (Some translations, Some messages, Some strings) \<Rightarrow>
          (let wrapped = orElse (orElse translations messages) strings
           in if isTruthy wrapped
              then (case wrapped of Some v \<Rightarrow> Some v | None \<Rightarrow> Some data)
              else Some data)
      | _ \<Rightarrow> None)"

definition parseJSON ::
  "jsonParser \<Rightarrow> random \<Rightarrow> nat \<Rightarrow> date \<Rightarrow> string \<Rightarrow> string \<Rightarrow> TranslationFile parsed"
where
  \<comment> \<open>every exception inside the \<open>try\<close> becomes the error \<open>Invalid JSON format\<close>\<close>
  "parseJSON jsonParse rnd k now content fileName =
     (case jsonParse content of
        None \<Rightarrow> Inl (invalidJSON fileName)
      | Some data \<Rightarrow>
          (case jsonRoot data of
             None \<Rightarrow> Inl (invalidJSON fileName)
           | Some rootValue \<Rightarrow>
               (case extractTranslations rnd fileName rootValue [] ([], k) of
                  None \<Rightarrow> Inl (invalidJSON fileName)
                | Some (units, k') \<Rightarrow>
                    Inr (newFile rnd k' now content fileName FT_json ''en'' [] units))))"

subsection \<open>Documents of the XML family\<close>

text \<open>
  A node of the tree that \<open>DOMParser.parseFromString(content, 'application/xml')\<close>
  returns: an element with its qualified name, its attributes and its children, a
  text node (a CDATA section included), or a comment or processing instruction,
  which has no part in \<open>textContent\<close>. The parser is a parameter; it returns the
  document element, which for a text that is not well-formed is or contains an
  element \<open>parsererror\<close>.
\<close>

datatype xml =
    Element string "(string \<times> string) list" "xml list"
  | TextNode string
  | OtherNode



definition tagName :: "xml \<Rightarrow> string" where
  "tagName n = (case n of Element name _ _ \<Rightarrow> name | _ \<Rightarrow> [])"





















subsection \<open>Line-oriented formats\<close>

definition LF :: char where "LF = CHR 0x0A"




























subsection \<open>The dispatcher\<close>



subsection \<open>The string leaves of a JSON value\<close>

text \<open>
  The string leaves of a value in depth-first order, each with its path from the
  value: the keys of the objects and the indices of the arrays on the way.
\<close>

fun leaves :: "json \<Rightarrow> (string list \<times> string) list"
  and entryLeaves :: "(string \<times> json) list \<Rightarrow> (string list \<times> string) list"
  and itemLeaves :: "nat \<Rightarrow> json list \<Rightarrow> (string list \<times> string) list"
where
  "leaves (JString s) = [([], s)]"
| "leaves (JObject kvs) = entryLeaves kvs"
| "leaves (JArray vs) = itemLeaves 0 vs"
| "leaves JNull = []"
| "leaves (JBool b) = []"
| "leaves (JNumber n) = []"
| "entryLeaves [] = []"
| "entryLeaves (kv # kvs) =
     map (\<lambda>(p, s). (fst kv # p, s)) (leaves (snd kv)) @ entryLeaves kvs"
| "itemLeaves i [] = []"
| "itemLeaves i (v # vs) =
     map (\<lambda>(p, s). (showNat i # p, s)) (leaves v) @ itemLeaves (Suc i) vs"

definition pathKey :: "string list \<Rightarrow> string" where
  \<comment> \<open>the path joined by dots, without the empty components it starts with\<close>
  "pathKey p = join ''.'' (dropWhile (\<lambda>k. k = []) p)"

definition keySourceTarget :: "TranslationUnit \<Rightarrow> string \<times> string \<times> string" where
  "keySourceTarget u = (u_key u, u_source u, u_target u)"

definition isContainer :: "json \<Rightarrow> bool" where
  \<comment> \<open>an object or an array\<close>
  "isContainer v = (case v of JObject _ \<Rightarrow> True | JArray _ \<Rightarrow> True | _ \<Rightarrow> False)"



subsection \<open>The units of a document of the XML family\<close>









section \<open>Issues without their identifiers\<close>

text \<open>
  What an analysis finds apart from the random identifiers: \<open>erase\<close> blanks the
  identifier of an issue, and \<open>pureChecks\<close> is the list of issues that the loop of
  \<open>checkUnit\<close> pushes, each with a blank identifier.
\<close>

definition erase :: "QAIssue \<Rightarrow> QAIssue" where
  "erase i = i\<lparr>i_id := []\<rparr>"

definition pureCheck ::
  "QAConfig \<Rightarrow> TranslationUnit \<Rightarrow> (string \<Rightarrow> QAIssue option) \<times> IssueType \<Rightarrow> QAIssue list"
where
  "pureCheck config unit cr =
     (if enabled config (snd cr)
      then (case fst cr [] of
              Some issue \<Rightarrow> [issue\<lparr>i_index := Some (u_index unit)\<rparr>]
            | None \<Rightarrow> [])
      else [])"

definition pureChecks ::
  "QAConfig \<Rightarrow> TranslationUnit \<Rightarrow> ((string \<Rightarrow> QAIssue option) \<times> IssueType) list
   \<Rightarrow> QAIssue list"
where
  "pureChecks config unit cs = concat (map (pureCheck config unit) cs)"

definition pureIssues :: "FloatOps \<Rightarrow> TranslationFile \<Rightarrow> QAConfig \<Rightarrow> QAIssue list" where
  "pureIssues F file config =
     concat (map (\<lambda>unit. pureChecks config unit (checks F unit (f_units file) config))
               (f_units file))"

definition idOnly :: "(string \<Rightarrow> QAIssue option) \<Rightarrow> bool" where
  \<comment> \<open>a rule does nothing with the identifier it is given but store it\<close>
  "idOnly check = (\<forall>iid. check iid = map_option (\<lambda>i. i\<lparr>i_id := iid\<rparr>) (check []))"

definition fingerprint :: "QAIssue \<Rightarrow> nat option \<times> IssueType \<times> Severity \<times> string" where
  \<comment> \<open>the tuple \<open>(unit index, type, severity, message)\<close> of an issue\<close>
  "fingerprint i = (i_index i, i_type i, i_severity i, i_message i)"

definition statsOf :: "QAIssue list \<Rightarrow> QAStats" where
  \<comment> \<open>the statistics that \<open>runQA\<close> computes from \<open>allIssues\<close>\<close>
  "statsOf allIssues =
     \<lparr>total = length allIssues,
      errors = length (filter (\<lambda>i. i_severity i = S_error) allIssues),
      warnings = length (filter (\<lambda>i. i_severity i = S_warning) allIssues),
      info = length (filter (\<lambda>i. i_severity i = S_info) allIssues),
      byType = countByType allIssues Map.empty\<rparr>"

definition disable :: "IssueType \<Rightarrow> QAConfig \<Rightarrow> QAConfig" where
  \<comment> \<open>the same configuration with one rule set to \<open>false\<close>\<close>
  "disable r config = config\<lparr>rules := (rules config)(r \<mapsto> False)\<rparr>"

section \<open>An instance of the floating-point operations\<close>

text \<open>
  The three operations computed exactly on rationals, to run the analyzer on concrete
  inputs. IEEE-754 arithmetic yields the same wherever the quotient and the products
  are doubles themselves, as for the lengths 2 and 3 against the ratio 1.5, and the
  instance is used at such inputs only. Elsewhere the doubles are rounded and can
  fall on the other side: for the lengths 87 and 40 the code prints 217, the exact
  quotient gives 218.
\<close>

definition toFixed0 :: "rat \<Rightarrow> string" where
  \<comment> \<open>\<open>x.toFixed(0)\<close> below \<open>1e21\<close>: the nearest integer, a tie away from zero\<close>
  "toFixed0 x =
     (if x < 0 then ''-'' @ showNat (nat \<lfloor>- x + 1 / 2\<rfloor>) else showNat (nat \<lfloor>x + 1 / 2\<rfloor>))"

definition exactOps :: FloatOps where
  "exactOps =
     \<lparr>ratioExceeds = (\<lambda>t s m. m < of_nat t / of_nat s),
      ratioPercent = (\<lambda>t s. toFixed0 (of_nat t / of_nat s * 100)),
      maxPercent = (\<lambda>m. toFixed0 (m * 100))\<rparr>"

section \<open>Sample inputs\<close>

definition lowerUnit :: "nat \<Rightarrow> codeUnits" where
  \<comment> \<open>the lowercase of one code unit, for the code units up to \<open>U+00FF\<close> and for
      \<open>U+0130\<close> (the capital I with a dot above, whose lowercase is \<open>i\<close> followed by the
      combining dot \<open>U+0307\<close>)\<close>
  "lowerUnit n =
     (if (65 \<le> n \<and> n \<le> 90) \<or> (192 \<le> n \<and> n \<le> 222 \<and> n \<noteq> 215) then [n + 32]
      else if n = 304 then [105, 775]
      else [n])"

definition sampleLower :: lowerCase where
  \<comment> \<open>\<open>toLowerCase\<close> as far as the samples go: on the names made of the code units
      that \<open>lowerUnit\<close> knows\<close>
  "sampleLower name = concat (map lowerUnit name)"

definition sampleRandom :: random where
  \<comment> \<open>a sequence of texts of the form that \<open>Math.random().toString(36)\<close> returns\<close>
  "sampleRandom n = ''0.q7'' @ showNat n @ ''x4kz81mfw3''"

definition mkUnit :: "string \<Rightarrow> string \<Rightarrow> string \<Rightarrow> string \<Rightarrow> nat \<Rightarrow> TranslationUnit" where
  "mkUnit i k s t n =
     \<lparr>u_id = i, u_key = k, u_source = s, u_target = t, u_context = None, u_notes = None,
      u_filePath = ''ui.json'', u_lineNumber = None, u_index = n\<rparr>"

definition mkFile :: "TranslationUnit list \<Rightarrow> TranslationFile" where
  "mkFile units =
     \<lparr>f_id = ''f1'', f_name = ''ui.json'', f_type = FT_json, f_sourceLanguage = ''en'',
      f_targetLanguage = [], f_units = units, f_uploadedAt = 0, f_size = 0\<rparr>"

definition okCorpus :: "TranslationUnit list" where
  \<comment> \<open>two units with the source \<open>OK\<close> and the targets \<open>OK\<close> and \<open>Oui\<close>\<close>
  "okCorpus = [mkUnit ''u1'' ''ok.first'' ''OK'' ''OK'' 1, mkUnit ''u2'' ''ok.second'' ''OK'' ''Oui'' 2]"

definition blankUnit :: TranslationUnit where
  \<comment> \<open>a unit whose target is one space\<close>
  "blankUnit = mkUnit ''u1'' ''greeting'' ''Hello'' '' '' 1"

definition savedCorpus :: "TranslationUnit list" where
  \<comment> \<open>two units with the same source and the same target\<close>
  "savedCorpus = [mkUnit ''u1'' ''menu.save'' ''Save'' ''Sauver'' 1,
                  mkUnit ''u2'' ''dialog.save'' ''Save'' ''Sauver'' 2]"

definition untranslatedCorpus :: "TranslationUnit list" where
  \<comment> \<open>two units with the same source and no translation yet\<close>
  "untranslatedCorpus = [mkUnit ''u1'' ''menu.save'' ''Save'' [] 1,
                         mkUnit ''u2'' ''dialog.save'' ''Save'' [] 2]"

definition sampleJson :: json where
  \<comment> \<open>an object with a nested object and an array of strings\<close>
  "sampleJson =
     JObject [(''a'', JObject [(''b'', JString ''Hello {name}!''), (''c'', JString ''Save'')]),
              (''tags'', JArray [JString ''new'', JString ''hot''])]"

definition sampleJsonText :: string where
  \<comment> \<open>the text of \<open>sampleJson\<close>\<close>
  "sampleJsonText =
     ''{'' @ dq @ ''a'' @ dq @ '':{'' @ dq @ ''b'' @ dq @ '':'' @ dq @ ''Hello {name}!'' @ dq
     @ '','' @ dq @ ''c'' @ dq @ '':'' @ dq @ ''Save'' @ dq @ ''},'' @ dq @ ''tags'' @ dq
     @ '':['' @ dq @ ''new'' @ dq @ '','' @ dq @ ''hot'' @ dq @ '']}''"

definition sampleJsonParse :: jsonParser where
  \<comment> \<open>\<open>JSON.parse\<close> as far as the sample goes\<close>
  "sampleJsonParse content = (if content = sampleJsonText then Some sampleJson else None)"










definition allRulesOn :: QAConfig where
  \<comment> \<open>the default configuration with every rule set to \<open>true\<close>\<close>
  "allRulesOn = DEFAULT_CONFIG\<lparr>rules := (\<lambda>t. Some True)\<rparr>"

section \<open>Properties\<close>

subsection \<open>The format detector\<close>

lemma lastIndexFrom_none: "c \<notin> set s \<Longrightarrow> lastIndexFrom i c s found = found"
  by (induction s arbitrary: i) auto



lemma finalExtension_nodot:
  "fullStop \<notin> set f \<Longrightarrow> finalExtension toLower f = toLower f"
  by (simp add: finalExtension_def lastIndexOf_def lastIndexFrom_none substringFrom_def)








lemma detectFileType_constructor:
  "detectFileType sampleLower (codeUnitsOf ''constructor'') = Inherited ''constructor''"
  by code_simp

subsection \<open>The analyzer apart from the identifiers\<close>

lemma erase_index: "erase (i\<lparr>i_index := x\<rparr>) = (erase i)\<lparr>i_index := x\<rparr>"
  by (simp add: erase_def)

lemma idOnly_Some:
  assumes "idOnly c" and "c iid = Some i"
  shows "c [] = Some (erase i)"
proof -
  from assms(1) have eq: "c iid = map_option (\<lambda>i. i\<lparr>i_id := iid\<rparr>) (c [])"
    unfolding idOnly_def by (rule spec)
  from assms(1) have eq0: "c [] = map_option (\<lambda>i. i\<lparr>i_id := []\<rparr>) (c [])"
    unfolding idOnly_def by (rule spec)
  from eq assms(2) obtain j where j: "c [] = Some j" and i: "i = j\<lparr>i_id := iid\<rparr>"
    by (cases "c []") auto
  from eq0 j have "j = j\<lparr>i_id := []\<rparr>" by simp
  with i have "erase i = j" by (simp add: erase_def)
  with j show ?thesis by simp
qed

lemma idOnly_None:
  assumes "idOnly c" and "c iid = None"
  shows "c [] = None"
proof -
  from assms(1) have eq: "c iid = map_option (\<lambda>i. i\<lparr>i_id := iid\<rparr>) (c [])"
    unfolding idOnly_def by (rule spec)
  with assms(2) show ?thesis by (cases "c []") auto
qed

lemma pureChecks_Cons:
  "pureChecks config unit (cr # cs) = pureCheck config unit cr @ pureChecks config unit cs"
  by (simp add: pureChecks_def)

lemma pureChecks_Nil: "pureChecks config unit [] = []"
  by (simp add: pureChecks_def)

lemma runChecks_pure:
  assumes "\<forall>cr \<in> set cs. idOnly (fst cr)"
  shows "map erase (fst (runChecks rnd config unit cs (acc, k)))
           = map erase acc @ pureChecks config unit cs
       \<and> snd (runChecks rnd config unit cs (acc, k)) = k + length (pureChecks config unit cs)"
  using assms
proof (induction cs arbitrary: acc k)
  case Nil
  then show ?case by (simp add: pureChecks_Nil)
next
  case (Cons cr cs)
  obtain check rule where cr: "cr = (check, rule)" by (cases cr)
  from Cons.prems have io: "idOnly check" and rest: "\<forall>cr \<in> set cs. idOnly (fst cr)"
    by (auto simp: cr)
  note IH = Cons.IH [OF rest]
  show ?case
  proof (cases "enabled config rule")
    case False
    then have "pureCheck config unit cr = []" by (simp add: cr pureCheck_def)
    with False IH show ?thesis by (simp add: cr pureChecks_Cons)
  next
    case True
    show ?thesis
    proof (cases "check (generateIssueId rnd k)")
      case None
      with io have "check [] = None" by (rule idOnly_None)
      with True have "pureCheck config unit cr = []" by (simp add: cr pureCheck_def)
      with None True IH show ?thesis by (simp add: cr pureChecks_Cons)
    next
      case (Some i)
      with io have "check [] = Some (erase i)" by (rule idOnly_Some)
      with True have "pureCheck config unit cr = [(erase i)\<lparr>i_index := Some (u_index unit)\<rparr>]"
        by (simp add: cr pureCheck_def)
      with Some True IH show ?thesis by (simp add: cr pureChecks_Cons erase_index)
    qed
  qed
qed

lemma mkIssue_id: "(mkIssue iid unit ty sev msg sugg) = (mkIssue [] unit ty sev msg sugg)\<lparr>i_id := iid\<rparr>"
  by (simp add: mkIssue_def)

lemma idOnlyI:
  assumes "\<And>iid. c iid = map_option (\<lambda>i. i\<lparr>i_id := iid\<rparr>) (c [])"
  shows "idOnly c"
  unfolding idOnly_def by (intro allI) (rule assms)

lemma idOnly_rules:
  "idOnly (\<lambda>iid. checkMissingTranslation iid unit)"
  "idOnly (\<lambda>iid. checkEmptyTranslation iid unit)"
  "idOnly (\<lambda>iid. checkLeadingTrailingSpaces iid unit)"
  "idOnly (\<lambda>iid. checkInconsistentBrackets iid unit)"
  "idOnly (\<lambda>iid. checkInconsistentPlaceholders iid unit)"
  "idOnly (\<lambda>iid. checkInconsistentPunctuation iid unit)"
  "idOnly (\<lambda>iid. checkInconsistentNumbers iid unit)"
  "idOnly (\<lambda>iid. checkInconsistentURLs iid unit)"
  "idOnly (\<lambda>iid. checkInconsistentEmails iid unit)"
  "idOnly (\<lambda>iid. checkTooLongTranslation F iid unit r)"
  "idOnly (\<lambda>iid. checkDuplicateTranslation iid unit allUnits)"
  "idOnly (\<lambda>iid. checkInvalidHtmlTags iid unit)"
  "idOnly (\<lambda>iid. checkInvalidXmlTags iid unit)"
  "idOnly (\<lambda>iid. checkSpecialCharactersMismatch iid unit)"
  "idOnly (\<lambda>iid. checkFormattingIssues iid unit)"
  "idOnly (\<lambda>iid. checkUntranslatedText iid unit)"
  "idOnly (\<lambda>iid. checkTargetSameAsSource iid unit)"
  "idOnly (\<lambda>iid. checkKeyTermMismatch iid unit g)"
  "idOnly (\<lambda>iid. checkAlphanumericMismatch iid unit)"
  "idOnly (\<lambda>iid. checkInconsistentSource iid unit allUnits)"
  "idOnly (\<lambda>iid. checkInconsistentTarget iid unit allUnits)"
  unfolding checkMissingTranslation_def checkEmptyTranslation_def
    checkLeadingTrailingSpaces_def checkInconsistentBrackets_def
    checkInconsistentPlaceholders_def checkInconsistentPunctuation_def
    checkInconsistentNumbers_def checkInconsistentURLs_def checkInconsistentEmails_def
    checkTooLongTranslation_def checkDuplicateTranslation_def checkInvalidHtmlTags_def
    checkInvalidXmlTags_def checkSpecialCharactersMismatch_def checkFormattingIssues_def
    checkUntranslatedText_def checkTargetSameAsSource_def checkKeyTermMismatch_def
    checkAlphanumericMismatch_def checkInconsistentSource_def checkInconsistentTarget_def
  by (rule idOnlyI, simp add: mkIssue_def Let_def split: option.split sum.split prod.split)+

lemma type_rules:
  "checkMissingTranslation iid unit = Some i \<Longrightarrow> i_type i = missing_translation"
  "checkEmptyTranslation iid unit = Some i \<Longrightarrow> i_type i = empty_translation"
  "checkLeadingTrailingSpaces iid unit = Some i \<Longrightarrow> i_type i = leading_trailing_spaces"
  "checkInconsistentBrackets iid unit = Some i \<Longrightarrow> i_type i = inconsistent_brackets"
  "checkInconsistentPlaceholders iid unit = Some i \<Longrightarrow> i_type i = inconsistent_placeholders"
  "checkInconsistentPunctuation iid unit = Some i \<Longrightarrow> i_type i = inconsistent_punctuation"
  "checkInconsistentNumbers iid unit = Some i \<Longrightarrow> i_type i = inconsistent_numbers"
  "checkInconsistentURLs iid unit = Some i \<Longrightarrow> i_type i = inconsistent_urls"
  "checkInconsistentEmails iid unit = Some i \<Longrightarrow> i_type i = inconsistent_emails"
  "checkTooLongTranslation F iid unit r = Some i \<Longrightarrow> i_type i = too_long_translation"
  "checkDuplicateTranslation iid unit allUnits = Some i \<Longrightarrow> i_type i = duplicate_translation"
  "checkInvalidHtmlTags iid unit = Some i \<Longrightarrow> i_type i = invalid_html_tags"
  "checkInvalidXmlTags iid unit = Some i \<Longrightarrow> i_type i = invalid_xml_tags"
  "checkSpecialCharactersMismatch iid unit = Some i \<Longrightarrow> i_type i = special_characters_mismatch"
  "checkFormattingIssues iid unit = Some i \<Longrightarrow> i_type i = formatting_issues"
  "checkUntranslatedText iid unit = Some i \<Longrightarrow> i_type i = untranslated_text"
  "checkTargetSameAsSource iid unit = Some i \<Longrightarrow> i_type i = target_same_as_source"
  "checkKeyTermMismatch iid unit g = Some i \<Longrightarrow> i_type i = key_term_mismatch"
  "checkAlphanumericMismatch iid unit = Some i \<Longrightarrow> i_type i = alphanumeric_mismatch"
  "checkInconsistentSource iid unit allUnits = Some i \<Longrightarrow> i_type i = inconsistent_source"
  "checkInconsistentTarget iid unit allUnits = Some i \<Longrightarrow> i_type i = inconsistent_target"
  unfolding checkMissingTranslation_def checkEmptyTranslation_def
    checkLeadingTrailingSpaces_def checkInconsistentBrackets_def
    checkInconsistentPlaceholders_def checkInconsistentPunctuation_def
    checkInconsistentNumbers_def checkInconsistentURLs_def checkInconsistentEmails_def
    checkTooLongTranslation_def checkDuplicateTranslation_def checkInvalidHtmlTags_def
    checkInvalidXmlTags_def checkSpecialCharactersMismatch_def checkFormattingIssues_def
    checkUntranslatedText_def checkTargetSameAsSource_def checkKeyTermMismatch_def
    checkAlphanumericMismatch_def checkInconsistentSource_def checkInconsistentTarget_def
  by (auto simp: mkIssue_def Let_def split: option.splits sum.splits prod.splits if_splits)

lemma checks_idOnly: "\<forall>cr \<in> set (checks F unit allUnits config). idOnly (fst cr)"
  by (simp add: checks_def idOnly_rules)

lemma checks_type:
  "\<forall>cr \<in> set (checks F unit allUnits config). \<forall>iid i. fst cr iid = Some i \<longrightarrow> i_type i = snd cr"
  by (simp add: checks_def type_rules)

lemma checkUnit_pure:
  "map erase (fst (checkUnit F rnd k unit allUnits config))
     = pureChecks config unit (checks F unit allUnits config)"
  by (simp add: checkUnit_def runChecks_pure [OF checks_idOnly])

lemma checkAllUnits_pure:
  "map erase (fst (checkAllUnits F rnd allUnits config units (acc, k)))
     = map erase acc
       @ concat (map (\<lambda>unit. pureChecks config unit (checks F unit allUnits config)) units)"
proof (induction units arbitrary: acc k)
  case Nil
  then show ?case by simp
next
  case (Cons unit units)
  obtain found k' where cu: "checkUnit F rnd k unit allUnits config = (found, k')"
    by (cases "checkUnit F rnd k unit allUnits config")
  then have "map erase found = pureChecks config unit (checks F unit allUnits config)"
    using checkUnit_pure [of F rnd k unit allUnits config] by simp
  with cu Cons.IH [of "acc @ found" k'] show ?case by simp
qed

lemma issues_runQA:
  "issues (fst (runQA F rnd k now file config))
     = fst (checkAllUnits F rnd (f_units file) config (f_units file) ([], k))"
  by (simp add: runQA_def split: prod.split)

lemma runQA_pure:
  "map erase (issues (fst (runQA F rnd k now file config))) = pureIssues F file config"
  by (simp add: issues_runQA checkAllUnits_pure pureIssues_def)

lemma fingerprint_erase: "fingerprint (erase i) = fingerprint i"
  by (simp add: fingerprint_def erase_def)

lemma map_fingerprint_erase: "map fingerprint (map erase xs) = map fingerprint xs"
  by (simp add: fingerprint_erase)

lemma severity_erase:
  "length (filter (\<lambda>i. i_severity i = s) (map erase xs)) = length (filter (\<lambda>i. i_severity i = s) xs)"
  by (induction xs) (simp_all add: erase_def)

lemma countByType_erase: "countByType (map erase xs) m = countByType xs m"
  by (induction xs arbitrary: m) (simp_all add: erase_def)

lemma stats_runQA:
  "stats (fst (runQA F rnd k now file config)) = statsOf (issues (fst (runQA F rnd k now file config)))"
  by (simp add: runQA_def statsOf_def split: prod.split)

lemma statsOf_erase: "statsOf (map erase xs) = statsOf xs"
  by (simp only: statsOf_def severity_erase countByType_erase length_map)

subsection \<open>Determinism\<close>

text \<open>
  C2. Two runs of \<open>runQA\<close> on the same file and configuration, whatever the random
  identifiers drawn (\<open>rnd\<close> and \<open>k\<close>) and whatever the time (\<open>now\<close>), return issue
  lists of equal length whose tuples (unit index, type, severity, message) coincide
  position by position. The issues are equal once the identifier is blanked, and
  the statistics and the other fields of the result but \<open>completedAt\<close> are equal.
\<close>

theorem runQA_deterministic:
  "length (issues (fst (runQA F rnd k now file config)))
     = length (issues (fst (runQA F rnd' k' now' file config)))
   \<and> map fingerprint (issues (fst (runQA F rnd k now file config)))
     = map fingerprint (issues (fst (runQA F rnd' k' now' file config)))
   \<and> map erase (issues (fst (runQA F rnd k now file config)))
     = map erase (issues (fst (runQA F rnd' k' now' file config)))
   \<and> stats (fst (runQA F rnd k now file config))
     = stats (fst (runQA F rnd' k' now' file config))
   \<and> r_fileId (fst (runQA F rnd k now file config))
     = r_fileId (fst (runQA F rnd' k' now' file config))
   \<and> r_fileName (fst (runQA F rnd k now file config))
     = r_fileName (fst (runQA F rnd' k' now' file config))
   \<and> r_totalUnits (fst (runQA F rnd k now file config))
     = r_totalUnits (fst (runQA F rnd' k' now' file config))"
proof -
  let ?a = "issues (fst (runQA F rnd k now file config))"
  let ?b = "issues (fst (runQA F rnd' k' now' file config))"
  have e: "map erase ?a = map erase ?b" by (simp add: runQA_pure)
  then have l: "length ?a = length ?b" by (rule map_eq_imp_length_eq)
  from e have "map fingerprint (map erase ?a) = map fingerprint (map erase ?b)" by simp
  then have f: "map fingerprint ?a = map fingerprint ?b" by (simp only: map_fingerprint_erase)
  from e have "statsOf (map erase ?a) = statsOf (map erase ?b)" by simp
  then have s: "statsOf ?a = statsOf ?b" by (simp only: statsOf_erase)
  have h: "r_fileId (fst (runQA F rnd k now file config))
             = r_fileId (fst (runQA F rnd' k' now' file config))"
    "r_fileName (fst (runQA F rnd k now file config))
             = r_fileName (fst (runQA F rnd' k' now' file config))"
    "r_totalUnits (fst (runQA F rnd k now file config))
             = r_totalUnits (fst (runQA F rnd' k' now' file config))"
    by (simp_all add: runQA_def split: prod.split)
  from l f e s h show ?thesis by (simp only: stats_runQA)
qed

lemma sample_run:
  "map fingerprint (issues (fst (runQA exactOps sampleRandom 0 0 (mkFile okCorpus) DEFAULT_CONFIG)))
   = [(Some 1, inconsistent_target, S_warning,
       ''Inconsistent target: the same source text has multiple different translations.''),
      (Some 2, alphanumeric_mismatch, S_warning,
       ''Alphanumeric mismatch. Missing in target: OK. Extra in target: Oui.''),
      (Some 2, inconsistent_target, S_warning,
       ''Inconsistent target: the same source text has multiple different translations.'')]"
  by code_simp

lemma sample_ids:
  "map i_id (issues (fst (runQA exactOps sampleRandom 0 0 (mkFile okCorpus) DEFAULT_CONFIG)))
   = [''issue_q70x4kz81'', ''issue_q71x4kz81'', ''issue_q72x4kz81'']"
  by code_simp

subsection \<open>Rule independence\<close>

lemma enabled_disable: "enabled (disable r config) t = (t \<noteq> r \<and> enabled config t)"
  by (simp add: enabled_def mergedRules_def disable_def map_add_def)

lemma checks_disable: "checks F unit allUnits (disable r config) = checks F unit allUnits config"
  by (simp add: checks_def disable_def)

lemma pureCheck_disable_Some:
  assumes "fst cr [] = Some i" and "i_type i = snd cr"
  shows "pureCheck (disable r config) unit cr
           = filter (\<lambda>i. i_type i \<noteq> r) (pureCheck config unit cr)"
  unfolding pureCheck_def assms(1) enabled_disable option.case
  by (cases "snd cr = r") (simp_all add: assms(2))

lemma pureCheck_disable_None:
  assumes "fst cr [] = None"
  shows "pureCheck (disable r config) unit cr
           = filter (\<lambda>i. i_type i \<noteq> r) (pureCheck config unit cr)"
  unfolding pureCheck_def assms option.case by simp

lemma pureCheck_disable:
  assumes "\<forall>iid i. fst cr iid = Some i \<longrightarrow> i_type i = snd cr"
  shows "pureCheck (disable r config) unit cr
           = filter (\<lambda>i. i_type i \<noteq> r) (pureCheck config unit cr)"
proof (cases "fst cr []")
  case None
  then show ?thesis by (rule pureCheck_disable_None)
next
  case (Some i)
  moreover from Some assms have "i_type i = snd cr" by blast
  ultimately show ?thesis by (rule pureCheck_disable_Some)
qed

lemma pureChecks_disable:
  assumes "\<forall>cr \<in> set cs. \<forall>iid i. fst cr iid = Some i \<longrightarrow> i_type i = snd cr"
  shows "pureChecks (disable r config) unit cs
           = filter (\<lambda>i. i_type i \<noteq> r) (pureChecks config unit cs)"
  using assms
  by (induction cs) (simp_all add: pureChecks_Nil pureChecks_Cons pureCheck_disable)

lemma pureIssues_disable:
  "pureIssues F file (disable r config) = filter (\<lambda>i. i_type i \<noteq> r) (pureIssues F file config)"
proof -
  have "\<And>units. concat (map (\<lambda>unit. pureChecks (disable r config) unit
                     (checks F unit (f_units file) config)) units)
        = filter (\<lambda>i. i_type i \<noteq> r)
            (concat (map (\<lambda>unit. pureChecks config unit
                     (checks F unit (f_units file) config)) units))"
  proof -
    fix units
    show "concat (map (\<lambda>unit. pureChecks (disable r config) unit
                     (checks F unit (f_units file) config)) units)
        = filter (\<lambda>i. i_type i \<noteq> r)
            (concat (map (\<lambda>unit. pureChecks config unit
                     (checks F unit (f_units file) config)) units))"
      by (induction units) (simp_all add: pureChecks_disable [OF checks_type])
  qed
  then show ?thesis by (simp add: pureIssues_def checks_disable)
qed

text \<open>
  C3. For a configuration with all rules enabled and any rule \<open>r\<close>, the analysis
  with \<open>r\<close> set to \<open>false\<close> returns, identifiers apart, the issues of the analysis
  with all rules enabled without those of type \<open>r\<close>, in the same order.
\<close>

theorem runQA_rule_independence:
  assumes "\<forall>t. enabled config t"
  shows "map erase (issues (fst (runQA F rnd k now file
                                   (config\<lparr>rules := (rules config)(r \<mapsto> False)\<rparr>))))
         = filter (\<lambda>i. i_type i \<noteq> r)
             (map erase (issues (fst (runQA F rnd' k' now' file config))))"
  using pureIssues_disable [of F "file" r config]
  by (simp add: runQA_pure disable_def)

text \<open>
  The configuration \<open>allRulesOn\<close> enables every rule, and C3 applies to it.
\<close>

theorem runQA_rule_independence_witness:
  "(\<forall>t. enabled allRulesOn t)
   \<and> map erase (issues (fst (runQA exactOps sampleRandom 0 0 (mkFile okCorpus)
        (allRulesOn\<lparr>rules := (rules allRulesOn)(inconsistent_target \<mapsto> False)\<rparr>))))
     = filter (\<lambda>i. i_type i \<noteq> inconsistent_target)
         (map erase (issues (fst (runQA exactOps sampleRandom 7 0 (mkFile okCorpus) allRulesOn))))"
proof -
  have on: "\<forall>t. enabled allRulesOn t"
    by (simp add: enabled_def mergedRules_def allRulesOn_def)
  with runQA_rule_independence [OF on] show ?thesis by blast
qed

subsection \<open>Statistic closure\<close>

lemma countByType_count:
  "countByType xs m t =
     (let n = length (filter (\<lambda>i. i_type i = t) xs)
      in case m t of None \<Rightarrow> (if n = 0 then None else Some n) | Some a \<Rightarrow> Some (a + n))"
  by (induction xs arbitrary: m) (auto simp: Let_def split: option.splits)

lemma severity_partition:
  "length (filter (\<lambda>i. i_severity i = S_error) xs)
   + length (filter (\<lambda>i. i_severity i = S_warning) xs)
   + length (filter (\<lambda>i. i_severity i = S_info) xs) = length xs"
proof (induction xs)
  case Nil
  then show ?case by simp
next
  case (Cons i xs)
  then show ?case by (cases "i_severity i") simp_all
qed

text \<open>
  C1 (as amended). In the result of \<open>runQA\<close>, \<open>errors + warnings + info = total\<close>,
  \<open>total\<close> is the length of the issue list, and for every issue type \<open>t\<close> that
  some issue has, \<open>byType[t]\<close> is the number of issues of type \<open>t\<close>; a type that no
  issue has is not a key of \<open>byType\<close> (\<open>byType[t]\<close> is \<open>undefined\<close>, here \<open>None\<close>).
\<close>

theorem runQA_statistic_closure:
  "errors (stats (fst (runQA F rnd k now file config)))
     + warnings (stats (fst (runQA F rnd k now file config)))
     + info (stats (fst (runQA F rnd k now file config)))
     = total (stats (fst (runQA F rnd k now file config)))
   \<and> total (stats (fst (runQA F rnd k now file config)))
     = length (issues (fst (runQA F rnd k now file config)))
   \<and> byType (stats (fst (runQA F rnd k now file config))) t
     = (if length (filter (\<lambda>i. i_type i = t) (issues (fst (runQA F rnd k now file config)))) = 0
        then None
        else Some (length (filter (\<lambda>i. i_type i = t)
                             (issues (fst (runQA F rnd k now file config))))))"
  by (simp add: stats_runQA statsOf_def severity_partition countByType_count Let_def)

text \<open>
  C1 (as stated) fails for a type without issues: the analysis of \<open>okCorpus\<close> finds
  no \<open>missing_translation\<close>, and \<open>byType\<close> has no entry for it, which is not the
  number 0.
\<close>

theorem runQA_statistic_closure_counterexample:
  "byType (stats (fst (runQA exactOps sampleRandom 0 0 (mkFile okCorpus) DEFAULT_CONFIG)))
     missing_translation
   \<noteq> Some (count_list (map i_type
        (issues (fst (runQA exactOps sampleRandom 0 0 (mkFile okCorpus) DEFAULT_CONFIG))))
        missing_translation)"
  by code_simp

subsection \<open>Missing and empty translations\<close>

lemma trim_empty_iff: "trim s = [] \<longleftrightarrow> (\<forall>c \<in> set s. isSpace c)"
proof -
  have "trim s = [] \<longleftrightarrow> dropWhile isSpace (rev (dropWhile isSpace s)) = []"
    by (simp add: trim_def)
  also have "\<dots> \<longleftrightarrow> (\<forall>c \<in> set (dropWhile isSpace s). isSpace c)"
    by (simp only: dropWhile_eq_Nil_conv set_rev)
  also have "\<dots> \<longleftrightarrow> dropWhile isSpace s = []"
  proof
    assume all: "\<forall>c \<in> set (dropWhile isSpace s). isSpace c"
    show "dropWhile isSpace s = []"
    proof (rule ccontr)
      assume ne: "dropWhile isSpace s \<noteq> []"
      then have "\<not> isSpace (hd (dropWhile isSpace s))" by (rule hd_dropWhile)
      moreover from ne have "hd (dropWhile isSpace s) \<in> set (dropWhile isSpace s)" by simp
      ultimately show False using all by blast
    qed
  next
    assume "dropWhile isSpace s = []"
    then show "\<forall>c \<in> set (dropWhile isSpace s). isSpace c" by (auto dest: set_dropWhileD)
  qed
  also have "\<dots> \<longleftrightarrow> (\<forall>c \<in> set s. isSpace c)"
    by (simp add: dropWhile_eq_Nil_conv)
  finally show ?thesis .
qed

text \<open>
  C4 (as amended). The rule \<open>missing_translation\<close> emits an issue exactly when the
  target trimmed is empty, that is when every character of the target is white
  space (the target of length zero included); the issue is an error whose
  suggestion is the source. The rule \<open>empty_translation\<close> emits exactly when the
  target is non-empty and white space only; such a target is flagged by both rules.
\<close>

theorem missing_translation_rule:
  "(checkMissingTranslation iid unit \<noteq> None \<longleftrightarrow> (\<forall>c \<in> set (u_target unit). isSpace c))
   \<and> (checkMissingTranslation iid unit \<noteq> None \<longrightarrow>
        checkMissingTranslation iid unit
          = Some (mkIssue iid unit missing_translation S_error ''Translation is missing''
                    (Some (u_source unit))))
   \<and> (checkEmptyTranslation iid unit \<noteq> None
        \<longleftrightarrow> u_target unit \<noteq> [] \<and> (\<forall>c \<in> set (u_target unit). isSpace c))
   \<and> (u_target unit \<noteq> [] \<and> (\<forall>c \<in> set (u_target unit). isSpace c) \<longrightarrow>
        checkMissingTranslation iid unit \<noteq> None \<and> checkEmptyTranslation iid unit \<noteq> None)"
proof -
  have t: "trim (u_target unit) = [] \<longleftrightarrow> (\<forall>c \<in> set (u_target unit). isSpace c)"
    by (rule trim_empty_iff)
  have e: "u_target unit = [] \<Longrightarrow> trim (u_target unit) = []"
    by (simp add: trim_def)
  show ?thesis
    using t e by (auto simp: checkMissingTranslation_def checkEmptyTranslation_def)
qed

text \<open>
  The unit \<open>blankUnit\<close>, whose target is one space, is flagged by both rules.
\<close>

theorem missing_translation_rule_witness:
  "checkMissingTranslation ''issue_q70x4kz81'' blankUnit
     = Some (mkIssue ''issue_q70x4kz81'' blankUnit missing_translation S_error
               ''Translation is missing'' (Some ''Hello''))
   \<and> checkEmptyTranslation ''issue_q71x4kz81'' blankUnit \<noteq> None"
proof -
  have t: "u_target blankUnit \<noteq> [] \<and> (\<forall>c \<in> set (u_target blankUnit). isSpace c)"
    by code_simp
  have s: "u_source blankUnit = ''Hello''" by code_simp
  from t missing_translation_rule [of "''issue_q70x4kz81''" blankUnit]
    missing_translation_rule [of "''issue_q71x4kz81''" blankUnit]
  show ?thesis by (simp add: s)
qed

text \<open>
  C4 (as stated) fails: the target of \<open>blankUnit\<close> has length 1 and is white space
  only, and the analysis reports \<open>missing_translation\<close> as well as
  \<open>empty_translation\<close>.
\<close>

theorem missing_translation_counterexample:
  "length (u_target blankUnit) = 1
   \<and> map i_type (fst (checkUnit exactOps sampleRandom 0 blankUnit [blankUnit] DEFAULT_CONFIG))
     = [missing_translation, empty_translation, leading_trailing_spaces, alphanumeric_mismatch]"
  by code_simp

subsection \<open>Duplicate translations\<close>

text \<open>
  C5 (as amended). For a unit of a corpus, the rule \<open>duplicate_translation\<close> emits
  an (info) issue exactly when the corpus has another unit (one with a different
  identifier) with the same source and the same target, the target being non-empty.
\<close>

theorem duplicate_translation_rule:
  "(checkDuplicateTranslation iid unit allUnits \<noteq> None
      \<longleftrightarrow> (\<exists>u \<in> set allUnits. u_id u \<noteq> u_id unit \<and> u_source u = u_source unit
                                \<and> u_target u = u_target unit \<and> u_target u \<noteq> []))
   \<and> (\<forall>i. checkDuplicateTranslation iid unit allUnits = Some i \<longrightarrow>
          i_type i = duplicate_translation \<and> i_severity i = S_info)"
proof -
  let ?P = "\<lambda>u. u_id u \<noteq> u_id unit \<and> u_source u = u_source unit
                 \<and> u_target u = u_target unit \<and> u_target u \<noteq> []"
  have "0 < length (filter ?P allUnits) \<longleftrightarrow> (\<exists>u \<in> set allUnits. ?P u)"
    by (simp only: length_greater_0_conv filter_empty_conv) blast
  then show ?thesis
    by (auto simp: checkDuplicateTranslation_def Let_def mkIssue_def)
qed

text \<open>
  In \<open>savedCorpus\<close> the first unit has a duplicate; in \<open>untranslatedCorpus\<close>, whose
  targets are empty, it has none.
\<close>

theorem duplicate_translation_rule_witness:
  "checkDuplicateTranslation ''issue_q70x4kz81'' (savedCorpus ! 0) savedCorpus \<noteq> None
   \<and> checkDuplicateTranslation ''issue_q70x4kz81'' (untranslatedCorpus ! 0) untranslatedCorpus = None"
proof -
  have a: "\<exists>u \<in> set savedCorpus. u_id u \<noteq> u_id (savedCorpus ! 0)
      \<and> u_source u = u_source (savedCorpus ! 0) \<and> u_target u = u_target (savedCorpus ! 0)
      \<and> u_target u \<noteq> []"
    by code_simp
  have b: "\<not> (\<exists>u \<in> set untranslatedCorpus. u_id u \<noteq> u_id (untranslatedCorpus ! 0)
      \<and> u_source u = u_source (untranslatedCorpus ! 0)
      \<and> u_target u = u_target (untranslatedCorpus ! 0) \<and> u_target u \<noteq> [])"
    by code_simp
  from a b duplicate_translation_rule [of "''issue_q70x4kz81''" "savedCorpus ! 0" savedCorpus]
    duplicate_translation_rule [of "''issue_q70x4kz81''" "untranslatedCorpus ! 0" untranslatedCorpus]
  show ?thesis by blast
qed

text \<open>
  C5 (as stated) fails: the two units of \<open>untranslatedCorpus\<close> have the same
  non-empty source and the same target, and the rule emits nothing, since the
  target is empty.
\<close>

theorem duplicate_translation_counterexample:
  "u_id (untranslatedCorpus ! 1) \<noteq> u_id (untranslatedCorpus ! 0)
   \<and> u_source (untranslatedCorpus ! 1) = u_source (untranslatedCorpus ! 0)
   \<and> u_source (untranslatedCorpus ! 1) \<noteq> []
   \<and> u_target (untranslatedCorpus ! 1) = u_target (untranslatedCorpus ! 0)
   \<and> checkDuplicateTranslation ''issue_q70x4kz81'' (untranslatedCorpus ! 0) untranslatedCorpus
       = None"
  by code_simp

subsection \<open>The corpus of two units with the source OK\<close>

lemma enabled_default:
  "enabled DEFAULT_CONFIG t = (t \<noteq> inconsistent_case \<and> t \<noteq> potentially_incorrect_translation)"
  by (cases t) (simp_all add: enabled_def mergedRules_def DEFAULT_CONFIG_def DEFAULT_RULES_def)

lemma intra_OK_OK:
  assumes "u_source u = ''OK''" and "u_target u = ''OK''"
  shows "checkMissingTranslation iid u = None"
    "checkEmptyTranslation iid u = None"
    "checkLeadingTrailingSpaces iid u = None"
    "checkInconsistentBrackets iid u = None"
    "checkInconsistentPlaceholders iid u = None"
    "checkInconsistentPunctuation iid u = None"
    "checkInconsistentNumbers iid u = None"
    "checkInconsistentURLs iid u = None"
    "checkInconsistentEmails iid u = None"
    "checkInvalidHtmlTags iid u = None"
    "checkInvalidXmlTags iid u = None"
    "checkSpecialCharactersMismatch iid u = None"
    "checkFormattingIssues iid u = None"
    "checkUntranslatedText iid u = None"
    "checkTargetSameAsSource iid u = None"
    "checkKeyTermMismatch iid u [] = None"
    "checkAlphanumericMismatch iid u = None"
  unfolding checkMissingTranslation_def checkEmptyTranslation_def
    checkLeadingTrailingSpaces_def checkInconsistentBrackets_def
    checkInconsistentPlaceholders_def checkInconsistentPunctuation_def
    checkInconsistentNumbers_def checkInconsistentURLs_def checkInconsistentEmails_def
    checkInvalidHtmlTags_def
    checkInvalidXmlTags_def checkSpecialCharactersMismatch_def checkFormattingIssues_def
    checkUntranslatedText_def checkTargetSameAsSource_def checkKeyTermMismatch_def
    checkAlphanumericMismatch_def assms
  by code_simp+

lemma intra_OK_Oui:
  assumes "u_source u = ''OK''" and "u_target u = ''Oui''"
  shows "checkMissingTranslation iid u = None"
    "checkEmptyTranslation iid u = None"
    "checkLeadingTrailingSpaces iid u = None"
    "checkInconsistentBrackets iid u = None"
    "checkInconsistentPlaceholders iid u = None"
    "checkInconsistentPunctuation iid u = None"
    "checkInconsistentNumbers iid u = None"
    "checkInconsistentURLs iid u = None"
    "checkInconsistentEmails iid u = None"
    "checkInvalidHtmlTags iid u = None"
    "checkInvalidXmlTags iid u = None"
    "checkSpecialCharactersMismatch iid u = None"
    "checkFormattingIssues iid u = None"
    "checkUntranslatedText iid u = None"
    "checkTargetSameAsSource iid u = None"
    "checkKeyTermMismatch iid u [] = None"
    "checkAlphanumericMismatch iid u
       = Some (mkIssue iid u alphanumeric_mismatch S_warning
                 ''Alphanumeric mismatch. Missing in target: OK. Extra in target: Oui.'' None)"
  unfolding checkMissingTranslation_def checkEmptyTranslation_def
    checkLeadingTrailingSpaces_def checkInconsistentBrackets_def
    checkInconsistentPlaceholders_def checkInconsistentPunctuation_def
    checkInconsistentNumbers_def checkInconsistentURLs_def checkInconsistentEmails_def
    checkInvalidHtmlTags_def
    checkInvalidXmlTags_def checkSpecialCharactersMismatch_def checkFormattingIssues_def
    checkUntranslatedText_def checkTargetSameAsSource_def checkKeyTermMismatch_def
    checkAlphanumericMismatch_def assms
  by code_simp+

lemma too_long_OK:
  assumes "u_source u = ''OK''" and "length (u_target u) = n"
    and "\<not> ratioExceeds F n 2 (3 / 2)"
  shows "checkTooLongTranslation F iid u (maxLengthRatio DEFAULT_CONFIG) = None"
proof -
  have "length (u_source u) = 2" using assms(1) by simp
  with assms(2,3) show ?thesis
    by (simp only: checkTooLongTranslation_def DEFAULT_CONFIG_def QAConfig.simps if_False
        if_True split: if_split) simp
qed

lemma relational_OK:
  assumes "u_id u1 \<noteq> u_id u2" and "u_source u1 = u_source u2" and "u_target u1 \<noteq> u_target u2"
  shows "checkDuplicateTranslation iid u1 [u1, u2] = None"
    "checkDuplicateTranslation iid u2 [u1, u2] = None"
    "checkInconsistentSource iid u1 [u1, u2] = None"
    "checkInconsistentSource iid u2 [u1, u2] = None"
    "checkInconsistentTarget iid u1 [u1, u2]
       = Some (mkIssue iid u1 inconsistent_target S_warning
           ''Inconsistent target: the same source text has multiple different translations.''
           None)"
    "checkInconsistentTarget iid u2 [u1, u2]
       = Some (mkIssue iid u2 inconsistent_target S_warning
           ''Inconsistent target: the same source text has multiple different translations.''
           None)"
  using assms
  by (auto simp: checkDuplicateTranslation_def checkInconsistentSource_def
      checkInconsistentTarget_def)

text \<open>
  C8 (as amended). For a corpus of exactly two units (with different identifiers)
  with the source \<open>OK\<close> and the targets \<open>OK\<close> and \<open>Oui\<close>, under the default
  configuration: unit 1 emits \<open>inconsistent_target\<close> and nothing else, in particular
  no \<open>target_same_as_source\<close>, since its source is shorter than 3 characters; unit 2
  emits \<open>alphanumeric_mismatch\<close> and \<open>inconsistent_target\<close>. The two premises on
  \<open>F\<close> say that the doubles 2/2 and 3/2 do not exceed 1.5.
\<close>

theorem ok_corpus_issues:
  assumes "u_source u1 = ''OK''" and "u_target u1 = ''OK''"
    and "u_source u2 = ''OK''" and "u_target u2 = ''Oui''"
    and "u_id u1 \<noteq> u_id u2"
    and "\<not> ratioExceeds F 2 2 (3 / 2)" and "\<not> ratioExceeds F 3 2 (3 / 2)"
  shows "map i_type (fst (checkUnit F rnd k u1 [u1, u2] DEFAULT_CONFIG)) = [inconsistent_target]
       \<and> map i_type (fst (checkUnit F rnd k' u2 [u1, u2] DEFAULT_CONFIG))
           = [alphanumeric_mismatch, inconsistent_target]
       \<and> checkTargetSameAsSource iid u1 = None"
proof -
  have g: "glossary DEFAULT_CONFIG = None" by (simp add: DEFAULT_CONFIG_def)
  have l1: "length (u_target u1) = 2" and l2: "length (u_target u2) = 3"
    using assms by simp_all
  have d: "u_source u1 = u_source u2" "u_target u1 \<noteq> u_target u2" using assms by simp_all
  note r = relational_OK [OF assms(5) d]
  have a: "map i_type (fst (checkUnit F rnd k u1 [u1, u2] DEFAULT_CONFIG)) = [inconsistent_target]"
    by (simp add: checkUnit_def checks_def enabled_default g
        intra_OK_OK [OF assms(1,2)] too_long_OK [OF assms(1) l1 assms(6)] r mkIssue_def)
  have b: "map i_type (fst (checkUnit F rnd k' u2 [u1, u2] DEFAULT_CONFIG))
           = [alphanumeric_mismatch, inconsistent_target]"
    by (simp add: checkUnit_def checks_def enabled_default g
        intra_OK_Oui [OF assms(3,4)] too_long_OK [OF assms(3) l2 assms(7)] r mkIssue_def)
  from a b intra_OK_OK(15) [OF assms(1,2)] show ?thesis by simp
qed

text \<open>
  The corpus \<open>okCorpus\<close> is such a corpus.
\<close>

theorem ok_corpus_issues_witness:
  "map i_type (fst (checkUnit exactOps sampleRandom 0 (okCorpus ! 0) okCorpus DEFAULT_CONFIG))
     = [inconsistent_target]
   \<and> map i_type (fst (checkUnit exactOps sampleRandom 1 (okCorpus ! 1) okCorpus DEFAULT_CONFIG))
     = [alphanumeric_mismatch, inconsistent_target]
   \<and> checkTargetSameAsSource ''issue_q70x4kz81'' (okCorpus ! 0) = None"
proof -
  have c: "okCorpus = [okCorpus ! 0, okCorpus ! 1]" by code_simp
  have h: "u_source (okCorpus ! 0) = ''OK''" "u_target (okCorpus ! 0) = ''OK''"
    "u_source (okCorpus ! 1) = ''OK''" "u_target (okCorpus ! 1) = ''Oui''"
    "u_id (okCorpus ! 0) \<noteq> u_id (okCorpus ! 1)"
    "\<not> ratioExceeds exactOps 2 2 (3 / 2)" "\<not> ratioExceeds exactOps 3 2 (3 / 2)"
    by code_simp+
  from ok_corpus_issues [OF h, of sampleRandom 0 1 "''issue_q70x4kz81''"] c
  show ?thesis by simp
qed

text \<open>
  C8 (as stated) fails: the analysis of \<open>okCorpus\<close> under the default configuration
  returns three issues, none of which is \<open>target_same_as_source\<close>.
\<close>

theorem ok_corpus_counterexample:
  "map i_type (issues (fst (runQA exactOps sampleRandom 0 0 (mkFile okCorpus) DEFAULT_CONFIG)))
     = [inconsistent_target, alphanumeric_mismatch, inconsistent_target]
   \<and> map i_index (issues (fst (runQA exactOps sampleRandom 0 0 (mkFile okCorpus) DEFAULT_CONFIG)))
     = [Some 1, Some 2, Some 2]"
  by code_simp

subsection \<open>The JSON traversal\<close>

lemma foldl_fullKeyOf_nonempty:
  "prefix \<noteq> [] \<Longrightarrow> foldl fullKeyOf prefix p = prefix @ concat (map (\<lambda>k. ''.'' @ k) p)"
  by (induction p arbitrary: prefix) (simp_all add: fullKeyOf_def)

lemma join_dot: "join ''.'' (x # xs) = x @ concat (map (\<lambda>k. ''.'' @ k) xs)"
  by (induction xs arbitrary: x) simp_all

lemma foldl_fullKeyOf: "foldl fullKeyOf [] p = pathKey p"
proof (induction p)
  case Nil
  then show ?case by (simp add: pathKey_def)
next
  case (Cons k ps)
  show ?case
  proof (cases "k = []")
    case True
    then have "fullKeyOf [] k = []" by (simp add: fullKeyOf_def)
    then have "foldl fullKeyOf [] (k # ps) = foldl fullKeyOf [] ps" by simp
    with Cons True show ?thesis by (simp add: pathKey_def)
  next
    case False
    have "fullKeyOf [] k = k" by (simp add: fullKeyOf_def)
    then have "foldl fullKeyOf [] (k # ps) = foldl fullKeyOf k ps" by simp
    also have "\<dots> = k @ concat (map (\<lambda>k. ''.'' @ k) ps)"
      using False by (rule foldl_fullKeyOf_nonempty)
    also have "\<dots> = pathKey (k # ps)"
      using False by (simp add: pathKey_def join_dot)
    finally show ?thesis .
  qed
qed

lemma extract_leaves:
  "map keySourceTarget (fst (extractEntry rnd fn prefix key v st))
     = map keySourceTarget (fst st) @ map (\<lambda>(p, s). (foldl fullKeyOf prefix (key # p), s, [])) (leaves v)"
  "map keySourceTarget (fst (extractEntries rnd fn prefix kvs st))
     = map keySourceTarget (fst st) @ map (\<lambda>(p, s). (foldl fullKeyOf prefix p, s, [])) (entryLeaves kvs)"
  "map keySourceTarget (fst (extractItems rnd fn prefix i vs st))
     = map keySourceTarget (fst st) @ map (\<lambda>(p, s). (foldl fullKeyOf prefix p, s, [])) (itemLeaves i vs)"
  by (induction rnd fn prefix key v st and rnd fn prefix kvs st and rnd fn prefix i vs st
      rule: extractEntry_extractEntries_extractItems.induct)
    (simp_all add: keySourceTarget_def jsonUnit_def split_def o_def)





subsection \<open>The units of a JSON document\<close>

lemma extractTranslations_leaves:
  assumes "isContainer v"
  shows "\<exists>units k'. extractTranslations rnd fn v [] ([], k) = Some (units, k')
           \<and> map keySourceTarget units = map (\<lambda>(p, s). (pathKey p, s, [])) (leaves v)"
proof (cases v)
  case (JObject kvs)
  obtain units k' where r: "extractEntries rnd fn [] kvs ([], k) = (units, k')"
    by (cases "extractEntries rnd fn [] kvs ([], k)")
  with extract_leaves(2) [of rnd fn "[]" kvs "([], k)"]
  have "map keySourceTarget units = map (\<lambda>(p, s). (pathKey p, s, [])) (entryLeaves kvs)"
    by (simp add: foldl_fullKeyOf)
  with r JObject show ?thesis by (simp add: extractTranslations_def)
next
  case (JArray vs)
  obtain units k' where r: "extractItems rnd fn [] 0 vs ([], k) = (units, k')"
    by (cases "extractItems rnd fn [] 0 vs ([], k)")
  with extract_leaves(3) [of rnd fn "[]" 0 vs "([], k)"]
  have "map keySourceTarget units = map (\<lambda>(p, s). (pathKey p, s, [])) (itemLeaves 0 vs)"
    by (simp add: foldl_fullKeyOf)
  with r JArray show ?thesis by (simp add: extractTranslations_def)
qed (use assms in \<open>simp_all add: isContainer_def\<close>)

text \<open>
  C6 (as amended). For a document whose traversed value is an object or an array,
  the JSON decoder produces one unit per string leaf, in depth-first order, with the
  leaf as source and an empty target. An array is traversed like an object whose
  keys are the indices of its elements, so a string inside an array contributes a
  unit. The key of a unit is the path from the root joined by dots (\<open>pathKey\<close>:
  empty keys at the start of the path are left out).
\<close>

theorem parseJSON_string_leaves:
  assumes "jsonParse content = Some data" and "jsonRoot data = Some v" and "isContainer v"
  shows "\<exists>f k'. parseJSON jsonParse rnd k now content fileName = Inr (f, k')
           \<and> map (\<lambda>u. (u_key u, u_source u, u_target u)) (f_units f)
               = map (\<lambda>(p, s). (pathKey p, s, [])) (leaves v)"
proof -
  from extractTranslations_leaves [OF assms(3), of rnd fileName k] obtain units k' where
    "extractTranslations rnd fileName v [] ([], k) = Some (units, k')"
    "map keySourceTarget units = map (\<lambda>(p, s). (pathKey p, s, [])) (leaves v)"
    by blast
  with assms(1,2) show ?thesis
    by (simp add: parseJSON_def newFile_def keySourceTarget_def [abs_def])
qed

text \<open>
  The sample document has two string leaves in a nested object and two in an array.
\<close>

theorem parseJSON_string_leaves_witness:
  "\<exists>f k'. parseJSON sampleJsonParse sampleRandom 0 0 sampleJsonText ''ui.json'' = Inr (f, k')
     \<and> map (\<lambda>u. (u_key u, u_source u, u_target u)) (f_units f)
         = [(''a.b'', ''Hello {name}!'', []), (''a.c'', ''Save'', []),
            (''tags.0'', ''new'', []), (''tags.1'', ''hot'', [])]"
proof -
  have p: "sampleJsonParse sampleJsonText = Some sampleJson"
    by (simp add: sampleJsonParse_def)
  have r: "jsonRoot sampleJson = Some sampleJson" by code_simp
  have c: "isContainer sampleJson" by code_simp
  have l: "map (\<lambda>(p, s). (pathKey p, s, [] :: string)) (leaves sampleJson)
      = [(''a.b'', ''Hello {name}!'', []), (''a.c'', ''Save'', []),
         (''tags.0'', ''new'', []), (''tags.1'', ''hot'', [])]"
    by code_simp
  from parseJSON_string_leaves [where jsonParse = sampleJsonParse and content = sampleJsonText
      and data = sampleJson and v = sampleJson and rnd = sampleRandom and k = 0 and now = 0
      and fileName = "''ui.json''", OF p r c] l
  show ?thesis by simp
qed

text \<open>
  C6 (as stated) fails: the two strings of the array \<open>tags\<close> of the sample document
  contribute the units \<open>tags.0\<close> and \<open>tags.1\<close>.
\<close>

theorem parseJSON_array_counterexample:
  "map u_key (f_units (fst (projr
      (parseJSON sampleJsonParse sampleRandom 0 0 sampleJsonText ''ui.json''))))
     = [''a.b'', ''a.c'', ''tags.0'', ''tags.1'']
   \<and> map u_source (f_units (fst (projr
      (parseJSON sampleJsonParse sampleRandom 0 0 sampleJsonText ''ui.json''))))
     = [''Hello {name}!'', ''Save'', ''new'', ''hot'']"
  by code_simp

subsection \<open>The index of the units\<close>















lemma units_newFile: "f_units (fst (newFile rnd k now content fn ty sl tg units)) = units"
  by (simp add: newFile_def)













subsection \<open>The order of the units\<close>














subsection \<open>Parsers that accept every text\<close>










end
